theory Spec2Isabelle
  imports Main "HOL-Library.Word" "HOL-Library.Monad_Syntax"
begin

section \<open>os-find: a shallow embedding of \<^verbatim>\<open>main.cpp\<close>\<close>

text \<open>
  The program walks a directory tree and, for every entry that is not classified as a
  directory, checks it against the configured predicates and prints the path or runs an
  executable on it. The embedding follows \<^verbatim>\<open>main.cpp\<close> function by function.

  Conventions of the model:
  \<^item> C strings are \<open>string\<close>; an \<open>argv\<close> string holds no NUL character, so
    \<open>strcmp(a, b) == 0\<close> is equality of the lists, and reading the character at the
    terminating NUL gives \<open>CHR 0x00\<close>;
  \<^item> the platform is LP64 Linux: \<open>ino_t\<close>, \<open>nlink_t\<close> and \<open>uint64_t\<close> are unsigned
    64-bit words, \<open>off_t\<close> is a signed 64-bit word (read with \<open>sint\<close>);
  \<^item> what is written to \<open>std::cout\<close> and \<open>std::cerr\<close>, and every system call, is an
    \<open>event\<close>; a function with effects returns the list of its events in program order;
  \<^item> a failed \<open>assert\<close> aborts the process: functions that can reach one return an
    \<open>option\<close>, with \<open>None\<close> for the abort;
  \<^item> a thrown \<open>std::invalid_argument\<close> is \<open>Inl\<close> of its \<open>what()\<close> text.
\<close>

subsection \<open>Platform types\<close>

type_synonym ino_t = "64 word"
type_synonym off_t = "64 word"
type_synonym nlink_t = "64 word"
type_synonym uint64_t = "64 word"
type_synonym errno = nat
type_synonym pid_t = nat

text \<open>The \<open>d_type\<close> constants of \<^verbatim>\<open>dirent.h\<close>; the walker compares with \<open>DT_DIR\<close> only.\<close>

datatype d_type_t = DT_UNKNOWN | DT_FIFO | DT_CHR | DT_DIR | DT_BLK | DT_REG | DT_LNK | DT_SOCK

text \<open>The fields of \<open>struct dirent\<close> and \<open>struct stat\<close> that the program reads.\<close>

record dirent =
  d_ino :: ino_t
  d_name :: string
  d_type :: d_type_t

record stat =
  st_size :: off_t
  st_nlink :: nlink_t

definition endl :: string where
  "endl = [CHR 0x0A]"

definition EXIT_SUCCESS :: int where
  "EXIT_SUCCESS = 0"

definition EXIT_FAILURE :: int where
  "EXIT_FAILURE = 1"

subsection \<open>Events\<close>

text \<open>
  \<open>Fork (Inr pid) child\<close> is a \<open>fork()\<close> that returned \<open>pid\<close> in the parent; \<open>child\<close> is what
  the child process did. \<open>Fork (Inl e) []\<close> is a \<open>fork()\<close> that returned \<open>-1\<close> with
  \<open>errno = e\<close>. \<open>Execve path argv envp\<close> is the call of \<open>execve\<close>, \<open>Exit\<close> the call of
  \<open>exit\<close>, \<open>Waitpid pid\<close> the call \<open>waitpid(pid, &status, 0)\<close>.
\<close>

datatype event =
    Cout string
  | Cerr string
  | Opendir string
  | Closedir string
  | Stat string
  | Fork "errno + pid_t" "event list"
  | Execve string "string list" "string list"
  | Exit int
  | Waitpid pid_t

text \<open>
  The operating system as the program sees it, apart from the directory tree: the text of
  \<open>strerror\<close>, and the outcome of \<open>fork\<close> (for the path being dispatched), of \<open>execve\<close>
  (\<open>None\<close>: the image was replaced, the call does not return) and of \<open>waitpid\<close>
  (\<open>None\<close>: the child was waited for).
\<close>

record sys =
  strerror :: "errno \<Rightarrow> string"
  fork_result :: "string \<Rightarrow> errno + pid_t"
  execve_result :: "string \<Rightarrow> string list \<Rightarrow> errno option"
  waitpid_result :: "pid_t \<Rightarrow> errno option"

subsection \<open>\<open>print_help\<close>\<close>

definition tab :: string where
  "tab = [CHR 0x09]"

definition usage_text :: string where
  "usage_text =
     ''Usage : ./os-find path [options]'' @ endl @
     ''Recursively looks for files in given directory with given parameters and prints them to STDOUT'' @ endl @
     ''options:'' @ endl @
     tab @ ''-inum NUM'' @ tab @ tab @ ''looks for files with given inode number'' @ endl @
     tab @ ''-name NAME'' @ tab @ tab @ ''looks for files with given name'' @ endl @
     tab @ ''-size [=|-|+]SIZE'' @ tab @ ''looks for files with given size in bytes'' @ endl @
     tab @ tab @ '' ='' @ tab @ tab @ ''  size would be equal to SIZE'' @ endl @
     tab @ tab @ '' +'' @ tab @ tab @ ''  size would be greater than SIZE'' @ endl @
     tab @ tab @ '' -'' @ tab @ tab @ ''  size would be less than SIZE'' @ endl @
     tab @ ''  If symbol isn't specified '=' will be used.'' @ endl @
     tab @ ''-nlinks NUM'' @ tab @ tab @ ''looks for file with given number of hard links'' @ endl @
     tab @ ''-exec PATH'' @ tab @ tab @ ''results will be provided to executable located at PATH as a single argument'' @ endl @
     tab @ ''-help'' @ tab @ tab @ ''shows this message''"

definition print_help :: "event list" where
  "print_help = [Cout (usage_text @ endl)]"

subsection \<open>\<open>class optional\<close>\<close>

text \<open>
  \<open>get\<close> asserts \<open>is_set\<close>; \<open>None\<close> is the failed assertion. An optional that was never
  set holds an indeterminate \<open>val\<close> (the member \<open>value\<close> of the class).
\<close>

record 'a optional =
  val :: 'a
  is_set :: bool

definition get :: "'a optional \<Rightarrow> 'a option" where
  "get opt = (if is_set opt = True then Some (val opt) else None)"

definition set_opt :: "'a \<Rightarrow> 'a optional \<Rightarrow> 'a optional" where
  "set_opt new_val opt = opt\<lparr>is_set := True, val := new_val\<rparr>"

definition empty_opt :: "'a optional \<Rightarrow> bool" where
  "empty_opt opt = (\<not> is_set opt)"

subsection \<open>\<open>std::stoull\<close> and \<open>parse_num\<close>\<close>

definition isdigit :: "char \<Rightarrow> bool" where
  "isdigit c = (48 \<le> (of_char c :: nat) \<and> (of_char c :: nat) \<le> 57)"

definition isspace :: "char \<Rightarrow> bool" where
  "isspace c = (c = CHR '' '' \<or> (9 \<le> (of_char c :: nat) \<and> (of_char c :: nat) \<le> 13))"

fun digits_value :: "int \<Rightarrow> string \<Rightarrow> int" where
  "digits_value acc [] = acc"
| "digits_value acc (c # cs) = digits_value (acc * 10 + (of_char c - 48)) cs"

datatype stoull_error = Invalid_argument | Out_of_range

text \<open>
  \<open>std::stoull(value)\<close> with the default base 10, as \<open>strtoull\<close> does it: white space
  is skipped, one sign is read, then the longest run of digits; what follows the digits is
  ignored. No digit at all is \<open>std::invalid_argument\<close>, a magnitude above \<open>ULLONG_MAX\<close> is
  \<open>std::out_of_range\<close>, and a minus sign negates the value modulo \<open>2 ^ 64\<close>.
\<close>

definition stoull :: "string \<Rightarrow> stoull_error + uint64_t" where
  "stoull str =
     (let s1 = dropWhile isspace str;
          negative = (s1 \<noteq> [] \<and> hd s1 = CHR ''-'');
          s2 = (if s1 \<noteq> [] \<and> (hd s1 = CHR ''+'' \<or> hd s1 = CHR ''-'') then tl s1 else s1);
          digits = takeWhile isdigit s2;
          n = digits_value 0 digits
      in if digits = [] then Inl Invalid_argument
         else if n \<ge> 2 ^ 64 then Inl Out_of_range
         else Inr (if negative then - word_of_int n else word_of_int n))"

text \<open>The \<open>what()\<close> of both exceptions of \<open>std::stoull\<close> is the function's name (libstdc++).\<close>

definition what :: "stoull_error \<Rightarrow> string" where
  "what e = ''stoull''"

definition parse_num :: "string \<Rightarrow> string \<Rightarrow> string + uint64_t" where
  "parse_num value option =
     (case stoull value of
        Inr n \<Rightarrow> Inr n
      | Inl e \<Rightarrow> Inl (''Value of '' @ option @ '' is invalid: '' @ value @ '', '' @ what e))"

subsection \<open>\<open>class configuration\<close>\<close>

text \<open>\<open>enum class size_type : char {EQUAL, GREATER, LESS}\<close>: one byte.\<close>

type_synonym size_type = "8 word"

definition EQUAL :: size_type where
  "EQUAL = 0"

definition GREATER :: size_type where
  "GREATER = 1"

definition LESS :: size_type where
  "LESS = 2"

record configuration =
  help_flag :: bool
  inode :: "ino_t optional"
  name :: "string option"
  size_opt :: "(off_t \<times> size_type) optional"
  nlinks :: "nlink_t optional"
  executable :: "string option"

text \<open>
  The C string held by a \<open>std::string\<close>, as \<open>what()\<close> returns it: it ends before the
  first NUL character.
\<close>

definition c_str :: "string \<Rightarrow> string" where
  "c_str s = takeWhile (\<lambda>c. c \<noteq> CHR 0x00) s"

text \<open>The first character of a C string: the terminating NUL when the string is empty.\<close>

definition first_char :: "string \<Rightarrow> char" where
  "first_char s = (case s of [] \<Rightarrow> CHR 0x00 | c # _ \<Rightarrow> c)"

text \<open>
  The tail of \<open>get_size\<close>, from the test of \<open>value + pos\<close> on: \<open>type\<close> is the local
  variable as the \<open>switch\<close> left it.
\<close>

definition get_size_rest :: "string \<Rightarrow> nat \<Rightarrow> size_type \<Rightarrow> string + (off_t \<times> size_type)" where
  "get_size_rest value pos type =
     (if length (drop pos value) = 0 \<or> first_char (drop pos value) = CHR ''-''
      then Inl (''Value of size is invalid:'' @ value)
      else case parse_num (drop pos value) ''-size'' of
             Inl msg \<Rightarrow> Inl msg
           | Inr n \<Rightarrow> Inr (n, type))"

text \<open>
  \<open>get_size\<close>. The local \<open>size_type type;\<close> has no initialiser, and neither the digit
  branch nor \<open>case '='\<close> assigns it: there the function returns whatever byte the variable
  held. That byte is the parameter \<open>indeterminate\<close>. The message of the \<open>default\<close> case
  appends \<open>value[0]\<close> to a \<open>std::string\<close>; for the empty value that character is NUL, and
  the text of \<open>what()\<close> ends before it.
\<close>

definition get_size :: "size_type \<Rightarrow> string \<Rightarrow> string + (off_t \<times> size_type)" where
  "get_size indeterminate value =
     (if \<not> isdigit (first_char value) then
        (if first_char value = CHR ''+'' then get_size_rest value 1 GREATER
         else if first_char value = CHR ''-'' then get_size_rest value 1 LESS
         else if first_char value = CHR ''='' then get_size_rest value 1 indeterminate
         else Inl (c_str (''Value of size is invalid: Unknown symbol '' @ [first_char value])))
      else get_size_rest value 0 indeterminate)"

text \<open>A configuration object before the constructor's body runs.\<close>

definition initial_configuration :: configuration where
  "initial_configuration =
     \<lparr>help_flag = False, inode = \<lparr>val = 0, is_set = False\<rparr>, name = None,
      size_opt = \<lparr>val = (0, 0), is_set = False\<rparr>, nlinks = \<lparr>val = 0, is_set = False\<rparr>,
      executable = None\<rparr>"

text \<open>
  The constructor's loop \<open>for (i = 2; i < argc; i += 2)\<close> over \<open>argv[2..]\<close>: the list is
  what is left of \<open>argv\<close> from index \<open>i\<close> on.
\<close>

fun scan_options :: "size_type \<Rightarrow> string list \<Rightarrow> configuration \<Rightarrow> string + configuration" where
  "scan_options ind [] config = Inr config"
| "scan_options ind [option] config =
     (if option = ''-help'' then Inr (config\<lparr>help_flag := True\<rparr>)
      else Inl (''Value of '' @ option @ '' wasn't found''))"
| "scan_options ind (option # value # rest) config =
     (if option = ''-help'' then Inr (config\<lparr>help_flag := True\<rparr>)
      else if option = ''-inum'' then
        (case parse_num value option of
           Inl msg \<Rightarrow> Inl msg
         | Inr n \<Rightarrow> scan_options ind rest (config\<lparr>inode := set_opt n (inode config)\<rparr>))
      else if option = ''-name'' then scan_options ind rest (config\<lparr>name := Some value\<rparr>)
      else if option = ''-size'' then
        (case get_size ind value of
           Inl msg \<Rightarrow> Inl msg
         | Inr p \<Rightarrow> scan_options ind rest (config\<lparr>size_opt := set_opt p (size_opt config)\<rparr>))
      else if option = ''-nlinks'' then
        (case parse_num value option of
           Inl msg \<Rightarrow> Inl msg
         | Inr n \<Rightarrow> scan_options ind rest (config\<lparr>nlinks := set_opt n (nlinks config)\<rparr>))
      else if option = ''-exec'' then scan_options ind rest (config\<lparr>executable := Some value\<rparr>)
      else Inl (''Unknown option '' @ option))"

text \<open>The constructor \<open>configuration(argc, argv)\<close>; \<open>main\<close> calls it with \<open>argc \<ge> 2\<close>.\<close>

definition new_configuration :: "size_type \<Rightarrow> string list \<Rightarrow> string + configuration" where
  "new_configuration ind argv =
     (if argv ! 1 = ''-help'' then Inr (initial_configuration\<lparr>help_flag := True\<rparr>)
      else scan_options ind (drop 2 argv) initial_configuration)"

definition is_help :: "configuration \<Rightarrow> bool" where
  "is_help config = help_flag config"

definition get_executable :: "configuration \<Rightarrow> string option" where
  "get_executable config = executable config"

subsection \<open>\<open>configuration::matches\<close>\<close>

text \<open>\<open>!inode.empty() && inode.get() != file->d_ino\<close>\<close>

definition inode_differs :: "configuration \<Rightarrow> dirent \<Rightarrow> bool option" where
  "inode_differs config file =
     (if \<not> empty_opt (inode config)
      then do { i \<leftarrow> get (inode config); Some (i \<noteq> d_ino file) }
      else Some False)"

text \<open>\<open>name && std::strcmp(file->d_name, name)\<close>\<close>

definition name_differs :: "configuration \<Rightarrow> dirent \<Rightarrow> bool" where
  "name_differs config file =
     (case name config of None \<Rightarrow> False | Some n \<Rightarrow> d_name file \<noteq> n)"

text \<open>
  The \<open>if (!size.empty()) { switch (type) ... }\<close> block: \<open>True\<close> when it returns
  \<open>false\<close> from \<open>matches\<close>. A \<open>type\<close> that is none of the three enumerators selects no
  \<open>case\<close>, and the block does nothing.
\<close>

definition size_differs :: "configuration \<Rightarrow> stat \<Rightarrow> bool option" where
  "size_differs config st =
     (if \<not> empty_opt (size_opt config)
      then do {
        p1 \<leftarrow> get (size_opt config);
        p2 \<leftarrow> get (size_opt config);
        let value = fst p1;
        let type = snd p2;
        Some (if type = EQUAL then sint (st_size st) \<noteq> sint value
              else if type = LESS then sint (st_size st) \<ge> sint value
              else if type = GREATER then sint (st_size st) \<le> sint value
              else False)
      }
      else Some False)"

text \<open>\<open>!nlinks.empty() && st.st_nlink != nlinks.get()\<close>\<close>

definition nlinks_differs :: "configuration \<Rightarrow> stat \<Rightarrow> bool option" where
  "nlinks_differs config st =
     (if \<not> empty_opt (nlinks config)
      then do { n \<leftarrow> get (nlinks config); Some (st_nlink st \<noteq> n) }
      else Some False)"

text \<open>
  \<open>matches(file, path)\<close>; \<open>st_res\<close> is what \<open>stat(path, &st)\<close> gives if it is called
  (\<open>Inl e\<close>: it returns \<open>-1\<close> with \<open>errno = e\<close>). The result is the returned boolean and the
  events of the call.
\<close>

definition matches :: "sys \<Rightarrow> configuration \<Rightarrow> dirent \<Rightarrow> string \<Rightarrow> errno + stat \<Rightarrow> (bool \<times> event list) option" where
  "matches os config file path st_res =
     do {
       d1 \<leftarrow> inode_differs config file;
       if d1 then Some (False, [])
       else if name_differs config file then Some (False, [])
       else case st_res of
         Inl e \<Rightarrow>
           Some (False, [Stat path, Cerr (''Cannot check file '' @ path @ '': '' @ strerror os e @ endl)])
       | Inr st \<Rightarrow> do {
           d2 \<leftarrow> size_differs config st;
           if d2 then Some (False, [Stat path])
           else do {
             d3 \<leftarrow> nlinks_differs config st;
             if d3 then Some (False, [Stat path]) else Some (True, [Stat path])
           }
         }
     }"

subsection \<open>\<open>process\<close>\<close>

definition show_error :: "sys \<Rightarrow> errno \<Rightarrow> event list" where
  "show_error os e = [Cerr (''The following error occurred: '' @ strerror os e @ endl)]"

text \<open>The \<open>case 0\<close> branch of \<open>process\<close>: what the child does after \<open>fork\<close>.\<close>

definition process_child :: "sys \<Rightarrow> string \<Rightarrow> string \<Rightarrow> string list \<Rightarrow> event list" where
  "process_child os exe path envp =
     (let args = [exe, path] in
      case execve_result os (args ! 0) args of
        Some e \<Rightarrow> Execve (args ! 0) args envp # show_error os e @ [Exit EXIT_FAILURE]
      | None \<Rightarrow> [Execve (args ! 0) args envp])"

text \<open>\<open>process(config, name, envp)\<close> in the parent; the parameter \<open>name\<close> is \<open>path\<close> here.\<close>

definition process :: "sys \<Rightarrow> configuration \<Rightarrow> string \<Rightarrow> string list \<Rightarrow> event list" where
  "process os config path envp =
     (case get_executable config of
        Some exe \<Rightarrow>
          (case fork_result os path of
             Inl e \<Rightarrow> [Fork (Inl e) [], Cerr (''Cannot fork: '' @ strerror os e @ endl)]
           | Inr pid \<Rightarrow>
               Fork (Inr pid) (process_child os exe path envp) # Waitpid pid #
               (case waitpid_result os pid of Some e \<Rightarrow> show_error os e | None \<Rightarrow> []))
      | None \<Rightarrow> [Cout (path @ endl)])"

subsection \<open>\<open>walker::recursive_walk\<close>\<close>

text \<open>
  The directory tree as one walk sees it. An entry carries what \<open>readdir\<close> returned for
  it, what \<open>stat\<close> on its full path gives, and what \<open>opendir\<close> on its full path gives: the
  error of a failed \<open>opendir\<close>, or the entries \<open>readdir\<close> yields in order until it returns
  a null pointer, with the error of \<open>closedir\<close> if it fails.
\<close>

datatype fsnode = Entry dirent "errno + stat" dirres
  and dirres = Opendir_failed errno | Dir_stream "fsnode list" "errno option"

fun recursive_walk :: "sys \<Rightarrow> configuration \<Rightarrow> string list \<Rightarrow> string \<Rightarrow> dirres \<Rightarrow> event list option"
  and walk_entries :: "sys \<Rightarrow> configuration \<Rightarrow> string list \<Rightarrow> string \<Rightarrow> fsnode list \<Rightarrow> event list option"
  and walk_entry :: "sys \<Rightarrow> configuration \<Rightarrow> string list \<Rightarrow> string \<Rightarrow> fsnode \<Rightarrow> event list option"
where
  "recursive_walk os config envp path (Opendir_failed e) =
     Some [Opendir path, Cerr (''Cannot open '' @ path @ '': '' @ strerror os e @ endl)]"
| "recursive_walk os config envp path (Dir_stream entries close_res) =
     do {
       evs \<leftarrow> walk_entries os config envp path entries;
       Some (Opendir path # evs @ Closedir path #
             (case close_res of
                Some e \<Rightarrow> [Cerr (''Cannot close '' @ path @ '': '' @ strerror os e @ endl)]
              | None \<Rightarrow> []))
     }"
| "walk_entries os config envp path [] = Some []"
| "walk_entries os config envp path (entry # rest) =
     do {
       evs \<leftarrow> walk_entry os config envp path entry;
       evs' \<leftarrow> walk_entries os config envp path rest;
       Some (evs @ evs')
     }"
| "walk_entry os config envp path (Entry entry st_res sub) =
     (let full_path = path @ ''/'' @ d_name entry in
      if d_type entry = DT_DIR then
        (if d_name entry = ''.'' \<or> d_name entry = ''..'' then Some []
         else recursive_walk os config envp full_path sub)
      else do {
        (m, evs) \<leftarrow> matches os config entry full_path st_res;
        Some (if m then evs @ process os config full_path envp else evs)
      })"

subsection \<open>\<open>main\<close>\<close>

text \<open>
  \<open>main(argc, argv, envp)\<close> with \<open>argc = length argv\<close>; \<open>root\<close> is what \<open>opendir(argv[1])\<close>
  gives. The result is the events and the exit status.
\<close>

definition main :: "sys \<Rightarrow> size_type \<Rightarrow> string list \<Rightarrow> string list \<Rightarrow> dirres \<Rightarrow> (event list \<times> int) option" where
  "main os ind argv envp root =
     (if length argv < 2 then Some (print_help, EXIT_FAILURE)
      else case new_configuration ind argv of
             Inl msg \<Rightarrow> Some ([Cerr msg], EXIT_FAILURE)
           | Inr config \<Rightarrow>
               if is_help config then Some (print_help, EXIT_SUCCESS)
               else do {
                 evs \<leftarrow> recursive_walk os config envp (argv ! 1) root;
                 Some (evs, 0)
               })"

subsection \<open>Notions used to state the properties\<close>

text \<open>No predicate is configured: none of \<open>-inum\<close>, \<open>-name\<close>, \<open>-size\<close>, \<open>-nlinks\<close>.\<close>

definition no_predicates :: "configuration \<Rightarrow> bool" where
  "no_predicates config =
     (empty_opt (inode config) \<and> name config = None \<and>
      empty_opt (size_opt config) \<and> empty_opt (nlinks config))"

text \<open>The events that begin a dispatch: the printed line, or the \<open>fork\<close>.\<close>

fun is_dispatch :: "event \<Rightarrow> bool" where
  "is_dispatch (Cout _) = True"
| "is_dispatch (Fork _ _) = True"
| "is_dispatch _ = False"

text \<open>The event that begins the dispatch of one path under a configuration.\<close>

definition dispatch_event :: "sys \<Rightarrow> configuration \<Rightarrow> string list \<Rightarrow> string \<Rightarrow> event" where
  "dispatch_event os config envp p =
     (case get_executable config of
        None \<Rightarrow> Cout (p @ endl)
      | Some exe \<Rightarrow>
          (case fork_result os p of
             Inl e \<Rightarrow> Fork (Inl e) []
           | Inr pid \<Rightarrow> Fork (Inr pid) (process_child os exe p envp)))"

text \<open>
  The entries a walk hands to the matcher and whose \<open>stat\<close> succeeds, by their full
  paths in enumeration order: the entries that \<open>readdir\<close> does not classify as a directory
  (\<open>d_type\<close> is not \<open>DT_DIR\<close>), in the directory itself and in every directory reached
  from it through entries that are classified as directories, are not named \<open>.\<close> or
  \<open>..\<close>, and can be opened.
\<close>

fun visited_dir :: "string \<Rightarrow> dirres \<Rightarrow> string list"
  and visited_list :: "string \<Rightarrow> fsnode list \<Rightarrow> string list"
  and visited_entry :: "string \<Rightarrow> fsnode \<Rightarrow> string list"
where
  "visited_dir path (Opendir_failed e) = []"
| "visited_dir path (Dir_stream entries close_res) = visited_list path entries"
| "visited_list path [] = []"
| "visited_list path (entry # rest) = visited_entry path entry @ visited_list path rest"
| "visited_entry path (Entry entry st_res sub) =
     (if d_type entry = DT_DIR then
        (if d_name entry = ''.'' \<or> d_name entry = ''..'' then []
         else visited_dir (path @ ''/'' @ d_name entry) sub)
      else (case st_res of Inl e \<Rightarrow> [] | Inr st \<Rightarrow> [path @ ''/'' @ d_name entry]))"

text \<open>\<open>has_infix s sub\<close>: the text \<open>sub\<close> occurs in \<open>s\<close>.\<close>

fun has_infix :: "string \<Rightarrow> string \<Rightarrow> bool" where
  "has_infix [] sub = (sub = [])"
| "has_infix (c # cs) sub = (take (length sub) (c # cs) = sub \<or> has_infix cs sub)"

text \<open>
  The digits \<open>std::stoull\<close> reads from a string, and the strings on which it throws: no
  digit after the white space and the sign, or a magnitude that does not fit 64 bits.
\<close>

definition numeric_part :: "string \<Rightarrow> string" where
  "numeric_part str =
     (let s1 = dropWhile isspace str;
          s2 = (if s1 \<noteq> [] \<and> (hd s1 = CHR ''+'' \<or> hd s1 = CHR ''-'') then tl s1 else s1)
      in takeWhile isdigit s2)"

definition not_a_number :: "string \<Rightarrow> bool" where
  "not_a_number str = (numeric_part str = [] \<or> digits_value 0 (numeric_part str) \<ge> 2 ^ 64)"

text \<open>
  The \<open>-size\<close> values that \<open>get_size\<close> refuses: an unknown leading symbol, nothing or a
  \<open>-\<close> after the sign position, or a remainder on which \<open>std::stoull\<close> throws.
\<close>

definition after_sign :: "string \<Rightarrow> string" where
  "after_sign value = (if isdigit (first_char value) then value else drop 1 value)"

definition size_rejected :: "string \<Rightarrow> bool" where
  "size_rejected value =
     ((\<not> isdigit (first_char value) \<and> first_char value \<noteq> CHR ''+'' \<and>
       first_char value \<noteq> CHR ''-'' \<and> first_char value \<noteq> CHR ''='') \<or>
      after_sign value = [] \<or> first_char (after_sign value) = CHR ''-'' \<or>
      not_a_number (after_sign value))"

text \<open>
  The checks of \<open>matches\<close> that need no \<open>stat\<close>: the inode predicate is unset or equals
  the entry's inode, and the name predicate is unset or equals the entry's name.
\<close>

definition cheap_checks_pass :: "configuration \<Rightarrow> dirent \<Rightarrow> bool" where
  "cheap_checks_pass config file =
     ((empty_opt (inode config) \<or> val (inode config) = d_ino file) \<and>
      (case name config of None \<Rightarrow> True | Some n \<Rightarrow> d_name file = n))"

text \<open>The child processes a run created: the successful \<open>fork\<close>s, with what each child did.\<close>

fun children :: "event list \<Rightarrow> (pid_t \<times> event list) list" where
  "children [] = []"
| "children (Fork (Inr pid) child # evs) = (pid, child) # children evs"
| "children (_ # evs) = children evs"


text \<open>
  No \<open>-help\<close> stands at an option position of a list of option and value pairs: the
  scan of the constructor does not stop inside it.
\<close>

fun no_help_option :: "string list \<Rightarrow> bool" where
  "no_help_option [] = True"
| "no_help_option [option] = (option \<noteq> ''-help'')"
| "no_help_option (option # value # rest) = (option \<noteq> ''-help'' \<and> no_help_option rest)"



subsection \<open>A sample system and directory tree\<close>

text \<open>
  \<open>fork\<close> fails with \<open>EAGAIN\<close> for \<^verbatim>\<open>./b\<close>, gives the child 101 for \<^verbatim>\<open>./sub/c\<close> and
  the child 100 otherwise; \<open>execve\<close> succeeds; \<open>waitpid\<close> fails with \<open>EINTR\<close> for the child
  101 and succeeds otherwise.
\<close>

definition sample_os :: sys where
  "sample_os =
     \<lparr>strerror = (\<lambda>e. if e = 2 then ''No such file or directory''
                      else if e = 4 then ''Interrupted system call''
                      else if e = 11 then ''Resource temporarily unavailable''
                      else if e = 13 then ''Permission denied''
                      else ''Unknown error''),
      fork_result = (\<lambda>p. if p = ''./b'' then Inl 11 else if p = ''./sub/c'' then Inr 101 else Inr 100),
      execve_result = (\<lambda>p args. None),
      waitpid_result = (\<lambda>pid. if pid = 101 then Some 4 else None)\<rparr>"

definition echo_configuration :: configuration where
  "echo_configuration = initial_configuration\<lparr>executable := Some ''/bin/echo''\<rparr>"

definition regular :: "nat \<Rightarrow> string \<Rightarrow> nat \<Rightarrow> fsnode" where
  "regular ino n sz =
     Entry \<lparr>d_ino = of_nat ino, d_name = n, d_type = DT_REG\<rparr>
       (Inr \<lparr>st_size = of_nat sz, st_nlink = 1\<rparr>) (Opendir_failed 20)"

definition directory :: "nat \<Rightarrow> string \<Rightarrow> dirres \<Rightarrow> fsnode" where
  "directory ino n d =
     Entry \<lparr>d_ino = of_nat ino, d_name = n, d_type = DT_DIR\<rparr>
       (Inr \<lparr>st_size = 4096, st_nlink = 2\<rparr>) d"

text \<open>
  A root with the files \<^verbatim>\<open>a\<close> (200 bytes) and \<^verbatim>\<open>b\<close> (100 bytes), a dangling symbolic
  link \<^verbatim>\<open>gone\<close>, a directory \<^verbatim>\<open>secret\<close> that cannot be opened, and a directory
  \<^verbatim>\<open>sub\<close> holding the file \<^verbatim>\<open>c\<close> (50 bytes).
\<close>

definition sample_root :: dirres where
  "sample_root =
     Dir_stream
       [directory 2 ''.'' (Dir_stream [] None),
        directory 1 ''..'' (Dir_stream [] None),
        regular 5 ''a'' 200,
        regular 6 ''b'' 100,
        Entry \<lparr>d_ino = 7, d_name = ''gone'', d_type = DT_LNK\<rparr> (Inl 2) (Opendir_failed 2),
        directory 8 ''secret'' (Opendir_failed 13),
        directory 9 ''sub'' (Dir_stream [regular 10 ''c'' 50] None)]
       None"

text \<open>The sample system with every \<open>waitpid\<close> succeeding, and with every \<open>waitpid\<close> failing.\<close>

definition patient_os :: sys where
  "patient_os = sample_os\<lparr>waitpid_result := (\<lambda>pid. None)\<rparr>"

definition interrupted_os :: sys where
  "interrupted_os = sample_os\<lparr>waitpid_result := (\<lambda>pid. Some 4)\<rparr>"

text \<open>
  A root on a file system that reports no entry types: \<open>readdir\<close> gives \<open>DT_UNKNOWN\<close> for
  \<^verbatim>\<open>.\<close> and for the directory \<^verbatim>\<open>sub\<close>, which holds the file \<^verbatim>\<open>c\<close>.
\<close>

definition untyped_root :: dirres where
  "untyped_root =
     Dir_stream
       [Entry \<lparr>d_ino = 2, d_name = ''.'', d_type = DT_UNKNOWN\<rparr>
          (Inr \<lparr>st_size = 4096, st_nlink = 3\<rparr>) (Dir_stream [] None),
        Entry \<lparr>d_ino = 9, d_name = ''sub'', d_type = DT_UNKNOWN\<rparr>
          (Inr \<lparr>st_size = 4096, st_nlink = 2\<rparr>)
          (Dir_stream
             [Entry \<lparr>d_ino = 10, d_name = ''c'', d_type = DT_UNKNOWN\<rparr>
                (Inr \<lparr>st_size = 50, st_nlink = 1\<rparr>) (Opendir_failed 20)]
             None)]
       None"

section \<open>Properties\<close>

subsection \<open>The guarded reads of the optionals\<close>

lemma inode_differs_Some:
  "inode_differs config file =
     Some (is_set (inode config) \<and> val (inode config) \<noteq> d_ino file)"
  by (simp add: inode_differs_def get_def empty_opt_def)

lemma size_differs_Some:
  "size_differs config st =
     Some (is_set (size_opt config) \<and>
       (let value = fst (val (size_opt config)); type = snd (val (size_opt config)) in
        if type = EQUAL then sint (st_size st) \<noteq> sint value
        else if type = LESS then sint (st_size st) \<ge> sint value
        else if type = GREATER then sint (st_size st) \<le> sint value
        else False))"
  by (simp add: size_differs_def get_def empty_opt_def Let_def)

lemma nlinks_differs_Some:
  "nlinks_differs config st =
     Some (is_set (nlinks config) \<and> st_nlink st \<noteq> val (nlinks config))"
  by (simp add: nlinks_differs_def get_def empty_opt_def)

lemma matches_total: "\<exists>m evs. matches os config file path st_res = Some (m, evs)"
  by (cases st_res)
     (auto simp add: matches_def inode_differs_Some size_differs_Some nlinks_differs_Some)

text \<open>
  C10. Every \<open>get()\<close> in \<open>configuration::matches\<close> is behind the test \<open>!empty()\<close> of the
  same optional, so the assertion \<open>is_set == true\<close> never fails: none of the three
  guarded reads aborts, and \<open>matches\<close> returns a boolean for every configuration, entry
  and \<open>stat\<close> result.
\<close>

theorem optional_get_never_fails:
  "inode_differs config file \<noteq> None \<and> size_differs config st \<noteq> None \<and>
   nlinks_differs config st \<noteq> None \<and>
   (\<exists>m evs. matches os config file path st_res = Some (m, evs))"
  using matches_total
  by (simp add: inode_differs_Some size_differs_Some nlinks_differs_Some)

subsection \<open>Evaluation of the samples\<close>

lemmas sample_defs =
  sample_root_def sample_os_def regular_def directory_def echo_configuration_def
  initial_configuration_def

lemmas parse_defs =
  new_configuration_def get_size_def get_size_rest_def first_char_def isdigit_def isspace_def
  parse_num_def stoull_def what_def set_opt_def c_str_def

lemmas match_defs =
  matches_def inode_differs_Some name_differs_def size_differs_Some nlinks_differs_Some
  EQUAL_def GREATER_def LESS_def

lemmas process_defs =
  process_def process_child_def get_executable_def show_error_def

lemmas more_sample_defs =
  patient_os_def interrupted_os_def untyped_root_def

subsection \<open>The walker never aborts\<close>

lemma walk_total:
  "recursive_walk os config envp path d \<noteq> None"
  "walk_entries os config envp path es \<noteq> None"
  "walk_entry os config envp path n \<noteq> None"
proof (induction os config envp path d and os config envp path es and os config envp path n
       rule: recursive_walk_walk_entries_walk_entry.induct)
  case (5 os config envp path entry st_res sub)
  obtain m evs where
    "matches os config entry (path @ ''/'' @ d_name entry) st_res = Some (m, evs)"
    using matches_total by blast
  with 5 show ?case by (simp add: Let_def)
qed auto

lemma walk_entries_append:
  "walk_entries os config envp path (xs @ ys) =
     do { a \<leftarrow> walk_entries os config envp path xs;
          b \<leftarrow> walk_entries os config envp path ys;
          Some (a @ b) }"
proof (induction xs)
  case Nil
  show ?case by simp
next
  case (Cons x xs)
  show ?case
    by (cases "walk_entry os config envp path x"; cases "walk_entries os config envp path xs";
        cases "walk_entries os config envp path ys") (simp_all add: Cons)
qed

subsection \<open>The size filter\<close>

text \<open>
  C1. The size filter follows the comparator that \<open>get_size\<close> resolved, and \<open>+100\<close> and
  \<open>-100\<close> resolve to \<open>GREATER\<close> and \<open>LESS\<close> with the threshold 100. For \<open>100\<close> and \<open>=100\<close>
  the comparator is not \<open>EQUAL\<close> but the unassigned local variable \<open>type\<close>: when that byte
  is 1, the run \<^verbatim>\<open>os-find . -size 100\<close> on the sample tree prints the 200-byte file
  \<^verbatim>\<open>./a\<close> and not the 100-byte file \<^verbatim>\<open>./b\<close>.
\<close>

theorem bare_size_comparator_is_unassigned:
  "get_size ind ''+100'' = Inr (100, GREATER) \<and>
   get_size ind ''-100'' = Inr (100, LESS) \<and>
   get_size ind ''100'' = Inr (100, ind) \<and>
   get_size ind ''=100'' = Inr (100, ind) \<and>
   main sample_os GREATER [''os-find'', ''.'', ''-size'', ''100''] [] sample_root =
     Some ([Opendir ''.'', Stat ''./a'', Cout (''./a'' @ endl), Stat ''./b'', Stat ''./gone'',
            Cerr (''Cannot check file ./gone: No such file or directory'' @ endl),
            Opendir ''./secret'', Cerr (''Cannot open ./secret: Permission denied'' @ endl),
            Opendir ''./sub'', Stat ''./sub/c'', Closedir ''./sub'', Closedir ''.''], 0)"
  by (simp add: main_def is_help_def parse_defs sample_defs match_defs process_defs Let_def)

subsection \<open>When \<open>stat\<close> is called\<close>

text \<open>
  C2, as the claim states it, fails: with neither a size nor an nlinks predicate the
  matcher still calls \<open>stat\<close> on the path.
\<close>

theorem stat_called_without_size_or_nlinks:
  "empty_opt (size_opt initial_configuration) \<and> empty_opt (nlinks initial_configuration) \<and>
   matches sample_os initial_configuration \<lparr>d_ino = 5, d_name = ''a'', d_type = DT_REG\<rparr> ''./a''
     (Inr \<lparr>st_size = 200, st_nlink = 1\<rparr>) = Some (True, [Stat ''./a''])"
  by (simp add: empty_opt_def sample_defs match_defs)

text \<open>
  C2, amended. For every entry the matcher evaluates, \<open>stat\<close> is called on the full path
  if and only if the entry passes the inode and name checks (a check passes when its
  predicate is unset), whether or not a size or nlinks predicate is configured; an entry
  that fails one of the two checks is rejected with no \<open>stat\<close> call and no other event.
\<close>

theorem stat_called_iff_cheap_checks_pass:
  "matches os config file path st_res = Some (m, evs) \<Longrightarrow>
     (Stat path \<in> set evs) = cheap_checks_pass config file \<and>
     (\<not> cheap_checks_pass config file \<longrightarrow> \<not> m \<and> evs = [])"
  by (cases st_res; cases "name config")
     (auto simp add: matches_def inode_differs_Some size_differs_Some nlinks_differs_Some
        cheap_checks_pass_def name_differs_def empty_opt_def split: if_splits)

theorem stat_called_iff_cheap_checks_pass_witness:
  "matches sample_os initial_configuration \<lparr>d_ino = 5, d_name = ''a'', d_type = DT_REG\<rparr> ''./a''
     (Inr \<lparr>st_size = 200, st_nlink = 1\<rparr>) = Some (True, [Stat ''./a'']) \<and>
   cheap_checks_pass initial_configuration \<lparr>d_ino = 5, d_name = ''a'', d_type = DT_REG\<rparr> \<and>
   matches sample_os (initial_configuration\<lparr>name := Some ''b''\<rparr>)
     \<lparr>d_ino = 5, d_name = ''a'', d_type = DT_REG\<rparr> ''./a''
     (Inr \<lparr>st_size = 200, st_nlink = 1\<rparr>) = Some (False, [])"
proof -
  let ?f = "\<lparr>d_ino = 5, d_name = ''a'', d_type = DT_REG\<rparr>"
  let ?st = "Inr \<lparr>st_size = 200, st_nlink = 1\<rparr> :: errno + stat"
  let ?c = "initial_configuration\<lparr>name := Some ''b''\<rparr>"
  have h1: "matches sample_os initial_configuration ?f ''./a'' ?st = Some (True, [Stat ''./a''])"
    by (simp add: sample_defs match_defs)
  obtain m evs where h2: "matches sample_os ?c ?f ''./a'' ?st = Some (m, evs)"
    using matches_total by blast
  have n: "\<not> cheap_checks_pass ?c ?f"
    by (simp add: cheap_checks_pass_def)
  from stat_called_iff_cheap_checks_pass [OF h1] have "cheap_checks_pass initial_configuration ?f"
    by simp
  moreover from stat_called_iff_cheap_checks_pass [OF h2] n have "\<not> m \<and> evs = []"
    by blast
  ultimately show ?thesis using h1 h2 by simp
qed

subsection \<open>No predicate configured\<close>

lemma matches_no_predicates:
  "no_predicates config \<Longrightarrow> matches os config file path (Inr st) = Some (True, [Stat path])"
  "no_predicates config \<Longrightarrow> matches os config file path (Inl e) =
      Some (False, [Stat path, Cerr (''Cannot check file '' @ path @ '': '' @ strerror os e @ endl)])"
  by (simp_all add: no_predicates_def matches_def inode_differs_Some size_differs_Some
        nlinks_differs_Some name_differs_def empty_opt_def)

lemma filter_dispatch_process:
  "filter is_dispatch (process os config p envp) = [dispatch_event os config envp p]"
  by (simp add: process_def dispatch_event_def show_error_def split: option.splits sum.splits)

lemma walk_dispatches:
  "no_predicates config \<Longrightarrow> recursive_walk os config envp path d = Some evs \<Longrightarrow>
     filter is_dispatch evs = map (dispatch_event os config envp) (visited_dir path d)"
  "no_predicates config \<Longrightarrow> walk_entries os config envp path es = Some evs \<Longrightarrow>
     filter is_dispatch evs = map (dispatch_event os config envp) (visited_list path es)"
  "no_predicates config \<Longrightarrow> walk_entry os config envp path n = Some evs \<Longrightarrow>
     filter is_dispatch evs = map (dispatch_event os config envp) (visited_entry path n)"
proof (induction os config envp path d and os config envp path es and os config envp path n
       arbitrary: evs and evs and evs
       rule: recursive_walk_walk_entries_walk_entry.induct)
  case (1 os config envp path e)
  then show ?case by auto
next
  case (2 os config envp path entries close_res)
  then show ?case by (auto split: Option.bind_splits option.splits)
next
  case (3 os config envp path)
  then show ?case by simp
next
  case (4 os config envp path entry rest)
  then show ?case by (auto split: Option.bind_splits)
next
  case (5 os config envp path entry st_res sub)
  show ?case
  proof (cases "d_type entry = DT_DIR")
    case True
    with 5 show ?thesis by (auto simp add: Let_def split: if_splits)
  next
    case False
    with 5 show ?thesis
      by (cases st_res) (auto simp add: Let_def matches_no_predicates filter_dispatch_process)
  qed
qed

lemma dispatch_event_print:
  "get_executable config = None \<Longrightarrow> dispatch_event os config envp = (\<lambda>p. Cout (p @ endl))"
  by (rule ext) (simp add: dispatch_event_def)

lemma dispatch_event_exec:
  "get_executable config = Some exe \<Longrightarrow>
     dispatch_event os config envp =
       (\<lambda>p. Fork (fork_result os p)
               (case fork_result os p of
                  Inl e \<Rightarrow> []
                | Inr pid \<Rightarrow> process_child os exe p envp))"
  by (rule ext) (simp add: dispatch_event_def split: sum.splits)

text \<open>
  C3, as the claim states it, fails, with no predicate configured, in three ways. An
  entry whose \<open>stat\<close> fails (the dangling link \<^verbatim>\<open>./gone\<close>) does not match. On a file
  system that reports no entry types the walk prints the directory \<^verbatim>\<open>./sub\<close> and never
  reaches the file \<^verbatim>\<open>./sub/c\<close> in it. With an executable configured and a failing \<open>fork\<close>
  (for \<^verbatim>\<open>./b\<close>) a matching entry is neither printed nor executed: three entries match and
  two children run.
\<close>

theorem unset_predicates_do_not_reach_every_entry:
  "no_predicates initial_configuration \<and>
   matches sample_os initial_configuration \<lparr>d_ino = 7, d_name = ''gone'', d_type = DT_LNK\<rparr>
     ''./gone'' (Inl 2) =
     Some (False, [Stat ''./gone'',
                   Cerr (''Cannot check file ./gone: No such file or directory'' @ endl)]) \<and>
   recursive_walk sample_os initial_configuration [] ''.'' untyped_root =
     Some [Opendir ''.'', Stat ''./.'', Cout (''./.'' @ endl),
           Stat ''./sub'', Cout (''./sub'' @ endl), Closedir ''.''] \<and>
   no_predicates echo_configuration \<and>
   map_option children (recursive_walk sample_os echo_configuration [] ''.'' sample_root) =
     Some [(100, [Execve ''/bin/echo'' [''/bin/echo'', ''./a''] []]),
           (101, [Execve ''/bin/echo'' [''/bin/echo'', ''./sub/c''] []])]"
  by (simp add: no_predicates_def empty_opt_def sample_defs more_sample_defs match_defs
        process_defs Let_def)

text \<open>
  C3, amended. When no predicate is configured, every entry handed to the matcher whose
  status lookup succeeds matches, and one whose status lookup fails is reported, with its
  path and the system error text, and does not match. The entries handed to the matcher
  are those that \<open>readdir\<close> does not classify as a directory, in the root and in every
  directory reached from it through entries that are classified as directories, are not
  named \<open>.\<close> or \<open>..\<close>, and can be opened. The walk hands to the dispatcher exactly those
  of them whose status lookup succeeds, each once and in enumeration order: without an
  executable, the lines printed are exactly their paths; with an executable, the \<open>fork\<close>
  calls are exactly one for each of them, successful or not.
\<close>

theorem no_predicates_dispatches_visited_entries:
  "no_predicates config \<Longrightarrow>
     matches os config file p (Inr st) = Some (True, [Stat p]) \<and>
     matches os config file p (Inl e) =
       Some (False, [Stat p, Cerr (''Cannot check file '' @ p @ '': '' @ strerror os e @ endl)]) \<and>
     (\<exists>evs. recursive_walk os config envp path root = Some evs \<and>
        (get_executable config = None \<longrightarrow>
           filter is_dispatch evs = map (\<lambda>p. Cout (p @ endl)) (visited_dir path root)) \<and>
        (\<forall>exe. get_executable config = Some exe \<longrightarrow>
           filter is_dispatch evs =
             map (\<lambda>p. Fork (fork_result os p)
                         (case fork_result os p of
                            Inl e \<Rightarrow> []
                          | Inr pid \<Rightarrow> process_child os exe p envp))
                 (visited_dir path root)))"
proof -
  assume np: "no_predicates config"
  obtain evs where evs: "recursive_walk os config envp path root = Some evs"
    using walk_total(1) by blast
  from np evs have d: "filter is_dispatch evs =
      map (dispatch_event os config envp) (visited_dir path root)"
    by (rule walk_dispatches(1))
  have "get_executable config = None \<longrightarrow>
      filter is_dispatch evs = map (\<lambda>p. Cout (p @ endl)) (visited_dir path root)"
    using d by (simp add: dispatch_event_print)
  moreover have "\<forall>exe. get_executable config = Some exe \<longrightarrow>
      filter is_dispatch evs =
        map (\<lambda>p. Fork (fork_result os p)
                    (case fork_result os p of
                       Inl e \<Rightarrow> []
                     | Inr pid \<Rightarrow> process_child os exe p envp))
            (visited_dir path root)"
    using d by (simp add: dispatch_event_exec)
  ultimately show ?thesis
    using np evs by (simp add: matches_no_predicates)
qed

theorem no_predicates_dispatches_visited_entries_witness:
  "no_predicates initial_configuration \<and> get_executable initial_configuration = None \<and>
   (\<exists>evs. recursive_walk sample_os initial_configuration [] ''.'' sample_root = Some evs \<and>
      filter is_dispatch evs =
        [Cout (''./a'' @ endl), Cout (''./b'' @ endl), Cout (''./sub/c'' @ endl)]) \<and>
   no_predicates echo_configuration \<and> get_executable echo_configuration = Some ''/bin/echo'' \<and>
   (\<exists>evs. recursive_walk sample_os echo_configuration [] ''.'' sample_root = Some evs \<and>
      filter is_dispatch evs =
        [Fork (Inr 100) [Execve ''/bin/echo'' [''/bin/echo'', ''./a''] []],
         Fork (Inl 11) [],
         Fork (Inr 101) [Execve ''/bin/echo'' [''/bin/echo'', ''./sub/c''] []]])"
proof -
  have np: "no_predicates initial_configuration" and npe: "no_predicates echo_configuration"
    by (simp_all add: no_predicates_def empty_opt_def sample_defs)
  have x: "get_executable initial_configuration = None"
    and xe: "get_executable echo_configuration = Some ''/bin/echo''"
    by (simp_all add: get_executable_def sample_defs)
  have v: "visited_dir ''.'' sample_root = [''./a'', ''./b'', ''./sub/c'']"
    by (simp add: sample_defs)
  have f: "map (\<lambda>p. Fork (fork_result sample_os p)
                    (case fork_result sample_os p of
                       Inl e \<Rightarrow> []
                     | Inr pid \<Rightarrow> process_child sample_os ''/bin/echo'' p []))
               [''./a'', ''./b'', ''./sub/c''] =
        [Fork (Inr 100) [Execve ''/bin/echo'' [''/bin/echo'', ''./a''] []],
         Fork (Inl 11) [],
         Fork (Inr 101) [Execve ''/bin/echo'' [''/bin/echo'', ''./sub/c''] []]]"
    by (simp add: sample_defs process_child_def)
  from no_predicates_dispatches_visited_entries [OF np, of sample_os _ _ _ _ "[]" "''.''" sample_root]
  obtain evs1 where w1: "recursive_walk sample_os initial_configuration [] ''.'' sample_root = Some evs1"
    and d1: "get_executable initial_configuration = None \<longrightarrow>
             filter is_dispatch evs1 = map (\<lambda>p. Cout (p @ endl)) (visited_dir ''.'' sample_root)"
    by blast
  from d1 x have "filter is_dispatch evs1 =
      [Cout (''./a'' @ endl), Cout (''./b'' @ endl), Cout (''./sub/c'' @ endl)]"
    by (simp add: v)
  with w1 have 1: "\<exists>evs. recursive_walk sample_os initial_configuration [] ''.'' sample_root = Some evs \<and>
      filter is_dispatch evs =
        [Cout (''./a'' @ endl), Cout (''./b'' @ endl), Cout (''./sub/c'' @ endl)]"
    by blast
  from no_predicates_dispatches_visited_entries [OF npe, of sample_os _ _ _ _ "[]" "''.''" sample_root]
  obtain evs2 where w2: "recursive_walk sample_os echo_configuration [] ''.'' sample_root = Some evs2"
    and d2: "\<forall>exe. get_executable echo_configuration = Some exe \<longrightarrow>
             filter is_dispatch evs2 =
               map (\<lambda>p. Fork (fork_result sample_os p)
                           (case fork_result sample_os p of
                              Inl e \<Rightarrow> []
                            | Inr pid \<Rightarrow> process_child sample_os exe p []))
                   (visited_dir ''.'' sample_root)"
    by blast
  from d2 xe have "filter is_dispatch evs2 =
               map (\<lambda>p. Fork (fork_result sample_os p)
                           (case fork_result sample_os p of
                              Inl e \<Rightarrow> []
                            | Inr pid \<Rightarrow> process_child sample_os ''/bin/echo'' p []))
                   (visited_dir ''.'' sample_root)"
    by blast
  then have "filter is_dispatch evs2 =
        [Fork (Inr 100) [Execve ''/bin/echo'' [''/bin/echo'', ''./a''] []],
         Fork (Inl 11) [],
         Fork (Inr 101) [Execve ''/bin/echo'' [''/bin/echo'', ''./sub/c''] []]]"
    by (simp only: v f)
  with w2 have 2: "\<exists>evs. recursive_walk sample_os echo_configuration [] ''.'' sample_root = Some evs \<and>
      filter is_dispatch evs =
        [Fork (Inr 100) [Execve ''/bin/echo'' [''/bin/echo'', ''./a''] []],
         Fork (Inl 11) [],
         Fork (Inr 101) [Execve ''/bin/echo'' [''/bin/echo'', ''./sub/c''] []]]"
    by blast
  from np npe x xe 1 2 show ?thesis by simp
qed

subsection \<open>Operational errors\<close>

lemma matches_stat_failed:
  "cheap_checks_pass config file \<Longrightarrow>
     matches os config file path (Inl e) =
       Some (False, [Stat path,
                     Cerr (''Cannot check file '' @ path @ '': '' @ strerror os e @ endl)])"
  by (cases "name config")
     (auto simp add: matches_def inode_differs_Some cheap_checks_pass_def name_differs_def
        empty_opt_def)

lemma process_fork_failed:
  "get_executable config = Some exe \<Longrightarrow> fork_result os path = Inl e \<Longrightarrow>
     process os config path envp =
       [Fork (Inl e) [], Cerr (''Cannot fork: '' @ strerror os e @ endl)]"
  by (simp add: process_def)

lemma process_forked:
  "get_executable config = Some exe \<Longrightarrow> fork_result os path = Inr pid \<Longrightarrow>
     process os config path envp =
       Fork (Inr pid) (process_child os exe path envp) # Waitpid pid #
       (case waitpid_result os pid of Some e \<Rightarrow> show_error os e | None \<Rightarrow> [])"
  by (simp add: process_def)

lemma walk_entries_split:
  "\<exists>evs1 evs2.
     walk_entries os config envp path before = Some evs1 \<and>
     walk_entries os config envp path after = Some evs2 \<and>
     walk_entries os config envp path (before @ after) = Some (evs1 @ evs2)"
proof -
  obtain evs1 where 1: "walk_entries os config envp path before = Some evs1"
    using walk_total(2) by blast
  obtain evs2 where 2: "walk_entries os config envp path after = Some evs2"
    using walk_total(2) by blast
  from 1 2 show ?thesis by (simp add: walk_entries_append)
qed

text \<open>
  C4, as the claim states it, fails: the report of a failed \<open>fork\<close> holds the system error
  text but not the path that was being dispatched.
\<close>

theorem fork_failure_report_lacks_path:
  "process sample_os echo_configuration ''./b'' [] =
     [Fork (Inl 11) [], Cerr (''Cannot fork: Resource temporarily unavailable'' @ endl)] \<and>
   \<not> has_infix (''Cannot fork: Resource temporarily unavailable'' @ endl) ''./b''"
  by (simp add: sample_defs process_defs endl_def)

text \<open>
  C4, amended. A failed \<open>opendir\<close> is reported with the path and the system error text, and
  the call returns without reading or recursing; a failed \<open>stat\<close> is reported with the
  path and the system error text and the entry does not match; a failed \<open>fork\<close> and a
  failed \<open>waitpid\<close> are reported with the system error text only, and \<open>process\<close> returns.
  None of them leaves the walker: a walk always returns, and the events of the entries
  that follow in a directory are the same whatever happened at the entries before.
\<close>

theorem operational_errors_are_contained:
  "recursive_walk os config envp dir (Opendir_failed e1) =
     Some [Opendir dir, Cerr (''Cannot open '' @ dir @ '': '' @ strerror os e1 @ endl)] \<and>
   (cheap_checks_pass config file \<longrightarrow>
      matches os config file path (Inl e2) =
        Some (False, [Stat path,
                      Cerr (''Cannot check file '' @ path @ '': '' @ strerror os e2 @ endl)])) \<and>
   (get_executable config = Some exe \<and> fork_result os path = Inl e3 \<longrightarrow>
      process os config path envp =
        [Fork (Inl e3) [], Cerr (''Cannot fork: '' @ strerror os e3 @ endl)]) \<and>
   (get_executable config = Some exe \<and> fork_result os path = Inr pid \<and>
    waitpid_result os pid = Some e4 \<longrightarrow>
      process os config path envp =
        [Fork (Inr pid) (process_child os exe path envp), Waitpid pid,
         Cerr (''The following error occurred: '' @ strerror os e4 @ endl)]) \<and>
   (\<exists>evs1 evs2.
      walk_entries os config envp dir before = Some evs1 \<and>
      walk_entries os config envp dir after = Some evs2 \<and>
      walk_entries os config envp dir (before @ after) = Some (evs1 @ evs2)) \<and>
   (\<exists>evs. recursive_walk os config envp dir root = Some evs)"
proof -
  have "\<exists>evs. recursive_walk os config envp dir root = Some evs"
    using walk_total(1) by blast
  then show ?thesis
    using walk_entries_split [of os config envp dir before after]
    by (simp add: matches_stat_failed process_fork_failed process_forked show_error_def)
qed

theorem operational_errors_are_contained_witness:
  "cheap_checks_pass echo_configuration \<lparr>d_ino = 7, d_name = ''gone'', d_type = DT_LNK\<rparr> \<and>
   matches sample_os echo_configuration \<lparr>d_ino = 7, d_name = ''gone'', d_type = DT_LNK\<rparr>
     ''./gone'' (Inl 2) =
     Some (False, [Stat ''./gone'',
                   Cerr (''Cannot check file ./gone: No such file or directory'' @ endl)]) \<and>
   get_executable echo_configuration = Some ''/bin/echo'' \<and>
   fork_result sample_os ''./b'' = Inl 11 \<and>
   process sample_os echo_configuration ''./b'' [] =
     [Fork (Inl 11) [], Cerr (''Cannot fork: Resource temporarily unavailable'' @ endl)] \<and>
   fork_result sample_os ''./sub/c'' = Inr 101 \<and> waitpid_result sample_os 101 = Some 4 \<and>
   process sample_os echo_configuration ''./sub/c'' [] =
     [Fork (Inr 101) [Execve ''/bin/echo'' [''/bin/echo'', ''./sub/c''] []], Waitpid 101,
      Cerr (''The following error occurred: Interrupted system call'' @ endl)] \<and>
   recursive_walk sample_os echo_configuration [] ''./secret'' (Opendir_failed 13) =
     Some [Opendir ''./secret'', Cerr (''Cannot open ./secret: Permission denied'' @ endl)]"
proof -
  let ?gone = "\<lparr>d_ino = 7, d_name = ''gone'', d_type = DT_LNK\<rparr>"
  have c: "cheap_checks_pass echo_configuration ?gone"
    by (simp add: cheap_checks_pass_def empty_opt_def sample_defs)
  have x: "get_executable echo_configuration = Some ''/bin/echo''"
    by (simp add: get_executable_def sample_defs)
  have f1: "fork_result sample_os ''./b'' = Inl 11"
    by (simp add: sample_defs)
  have f2: "fork_result sample_os ''./sub/c'' = Inr 101 \<and> waitpid_result sample_os 101 = Some 4"
    by (simp add: sample_defs)
  have s: "strerror sample_os 2 = ''No such file or directory'' \<and>
           strerror sample_os 4 = ''Interrupted system call'' \<and>
           strerror sample_os 11 = ''Resource temporarily unavailable'' \<and>
           strerror sample_os 13 = ''Permission denied''"
    by (simp add: sample_defs)
  have p: "process_child sample_os ''/bin/echo'' ''./sub/c'' [] =
           [Execve ''/bin/echo'' [''/bin/echo'', ''./sub/c''] []]"
    by (simp add: process_child_def sample_defs)
  note a = operational_errors_are_contained
     [of sample_os echo_configuration "[]" "''./secret''" 13 ?gone "''./gone''" 2
        "''/bin/echo''" 11 100 4 "[]" "[]" sample_root]
  note b = operational_errors_are_contained
     [of sample_os echo_configuration "[]" "''./secret''" 13 ?gone "''./b''" 2
        "''/bin/echo''" 11 100 4 "[]" "[]" sample_root]
  note d = operational_errors_are_contained
     [of sample_os echo_configuration "[]" "''./secret''" 13 ?gone "''./sub/c''" 2
        "''/bin/echo''" 11 101 4 "[]" "[]" sample_root]
  from a c s have 1: "matches sample_os echo_configuration ?gone ''./gone'' (Inl 2) =
     Some (False, [Stat ''./gone'',
                   Cerr (''Cannot check file ./gone: No such file or directory'' @ endl)])"
    by simp
  from a s have 2: "recursive_walk sample_os echo_configuration [] ''./secret'' (Opendir_failed 13) =
     Some [Opendir ''./secret'', Cerr (''Cannot open ./secret: Permission denied'' @ endl)]"
    by simp
  from b x f1 s have 3: "process sample_os echo_configuration ''./b'' [] =
     [Fork (Inl 11) [], Cerr (''Cannot fork: Resource temporarily unavailable'' @ endl)]"
    by simp
  from d x f2 s p have 4: "process sample_os echo_configuration ''./sub/c'' [] =
     [Fork (Inr 101) [Execve ''/bin/echo'' [''/bin/echo'', ''./sub/c''] []], Waitpid 101,
      Cerr (''The following error occurred: Interrupted system call'' @ endl)]"
    by simp
  from c x f1 f2 1 2 3 4 show ?thesis by simp
qed

subsection \<open>Dispatch to an executable\<close>















subsection \<open>The entries \<open>.\<close> and \<open>..\<close>\<close>

text \<open>
  C9, as the claim states it, fails: an entry named \<open>.\<close> that \<open>readdir\<close> does not classify
  as a directory (\<open>DT_UNKNOWN\<close>, on a file system that reports no types) is evaluated by
  the matcher and, here, printed.
\<close>

theorem unclassified_dot_entry_is_matched:
  "walk_entry sample_os initial_configuration [] ''.''
     (Entry \<lparr>d_ino = 2, d_name = ''.'', d_type = DT_UNKNOWN\<rparr>
        (Inr \<lparr>st_size = 4096, st_nlink = 2\<rparr>) (Dir_stream [] None)) =
     Some [Stat ''./.'', Cout (''./.'' @ endl)]"
  by (simp add: sample_defs match_defs process_defs Let_def)

text \<open>
  C9, amended. For every directory the walker enumerates, every entry classified as a
  directory and named \<open>.\<close> or \<open>..\<close> is skipped, neither recursed into nor evaluated by the
  matcher (it produces no event at all), and every other entry classified as a directory
  is recursed into with the path \<open>root_path + "/" + entry_name\<close>.
\<close>

theorem directory_entry_skipped_or_recursed:
  "d_type entry = DT_DIR \<Longrightarrow>
     walk_entry os config envp path (Entry entry st_res sub) =
       (if d_name entry = ''.'' \<or> d_name entry = ''..'' then Some []
        else recursive_walk os config envp (path @ ''/'' @ d_name entry) sub)"
  by (simp add: Let_def)

theorem directory_entry_skipped_or_recursed_witness:
  "d_type \<lparr>d_ino = 2, d_name = ''..'', d_type = DT_DIR\<rparr> = DT_DIR \<and>
   walk_entry sample_os initial_configuration [] ''.''
     (Entry \<lparr>d_ino = 2, d_name = ''..'', d_type = DT_DIR\<rparr>
        (Inr \<lparr>st_size = 4096, st_nlink = 2\<rparr>) sample_root) = Some [] \<and>
   d_type \<lparr>d_ino = 9, d_name = ''sub'', d_type = DT_DIR\<rparr> = DT_DIR \<and>
   walk_entry sample_os initial_configuration [] ''.''
     (Entry \<lparr>d_ino = 9, d_name = ''sub'', d_type = DT_DIR\<rparr>
        (Inr \<lparr>st_size = 4096, st_nlink = 2\<rparr>) (Dir_stream [regular 10 ''c'' 50] None)) =
     Some [Opendir ''./sub'', Stat ''./sub/c'', Cout (''./sub/c'' @ endl), Closedir ''./sub'']"
proof -
  let ?up = "\<lparr>d_ino = 2, d_name = ''..'', d_type = DT_DIR\<rparr>"
  let ?sub = "\<lparr>d_ino = 9, d_name = ''sub'', d_type = DT_DIR\<rparr>"
  have t: "d_type ?up = DT_DIR" "d_type ?sub = DT_DIR" by simp_all
  have r: "recursive_walk sample_os initial_configuration [] ''./sub''
             (Dir_stream [regular 10 ''c'' 50] None) =
           Some [Opendir ''./sub'', Stat ''./sub/c'', Cout (''./sub/c'' @ endl), Closedir ''./sub'']"
    by (simp add: sample_defs match_defs process_defs Let_def)
  from directory_entry_skipped_or_recursed [OF t(1)]
       directory_entry_skipped_or_recursed [OF t(2)] r t
  show ?thesis by (simp add: Let_def)
qed

subsection \<open>Numeric option values\<close>

lemma stoull_Inl_iff: "(\<exists>e. stoull v = Inl e) = not_a_number v"
  by (auto simp add: stoull_def not_a_number_def numeric_part_def Let_def)

lemma stoull_Inl_D: "stoull v = Inl e \<Longrightarrow> not_a_number v"
  using stoull_Inl_iff by blast

lemma stoull_Inr_D: "stoull v = Inr n \<Longrightarrow> \<not> not_a_number v"
  using stoull_Inl_iff [of v] by auto

lemma parse_num_not_a_number:
  "not_a_number v \<Longrightarrow>
     parse_num v opt = Inl (''Value of '' @ opt @ '' is invalid: '' @ v @ '', stoull'')"
proof -
  assume "not_a_number v"
  then obtain e where "stoull v = Inl e"
    using stoull_Inl_iff by blast
  then show ?thesis by (simp add: parse_num_def what_def)
qed

lemma parse_num_Inl_iff: "(\<exists>msg. parse_num v opt = Inl msg) = not_a_number v"
  using stoull_Inl_iff [of v] by (auto simp add: parse_num_def split: sum.splits)

lemma sign_not_digit:
  "\<not> isdigit CHR ''+''" "\<not> isdigit CHR ''-''" "\<not> isdigit CHR ''=''"
  by (simp_all add: isdigit_def)

text \<open>The position \<open>pos\<close> and the comparator with which \<open>get_size\<close> reaches its tail.\<close>

lemma get_size_known_sign:
  assumes "isdigit (first_char sz) \<or> first_char sz = CHR ''+'' \<or> first_char sz = CHR ''-'' \<or>
           first_char sz = CHR ''=''"
  shows "get_size ind sz =
          (if after_sign sz = [] \<or> first_char (after_sign sz) = CHR ''-''
           then Inl (''Value of size is invalid:'' @ sz)
           else case parse_num (after_sign sz) ''-size'' of
                  Inl msg \<Rightarrow> Inl msg
                | Inr n \<Rightarrow> Inr (n, if first_char sz = CHR ''+'' then GREATER
                                  else if first_char sz = CHR ''-'' then LESS else ind))"
proof (cases "isdigit (first_char sz)")
  case True
  then have "first_char sz \<noteq> CHR ''+''" "first_char sz \<noteq> CHR ''-''"
    using sign_not_digit by auto
  with True show ?thesis
    by (simp add: get_size_def get_size_rest_def after_sign_def)
next
  case False
  with assms show ?thesis
    by (auto simp add: get_size_def get_size_rest_def after_sign_def)
qed

lemma get_size_unknown_sign:
  assumes "\<not> isdigit (first_char sz)" "first_char sz \<noteq> CHR ''+''" "first_char sz \<noteq> CHR ''-''"
          "first_char sz \<noteq> CHR ''=''"
  shows "get_size ind sz =
           Inl (c_str (''Value of size is invalid: Unknown symbol '' @ [first_char sz]))"
  using assms by (simp add: get_size_def)

lemma get_size_Inl_iff: "(\<exists>msg. get_size ind sz = Inl msg) = size_rejected sz"
proof (cases "isdigit (first_char sz) \<or> first_char sz = CHR ''+'' \<or> first_char sz = CHR ''-'' \<or>
           first_char sz = CHR ''=''")
  case True
  from parse_num_Inl_iff [of "after_sign sz" "''-size''"] True show ?thesis
    unfolding get_size_known_sign [OF True] size_rejected_def
    by (cases "parse_num (after_sign sz) ''-size''") auto
next
  case False
  then show ?thesis
    by (simp add: get_size_unknown_sign size_rejected_def)
qed

lemma digit_not_space_or_sign:
  "isdigit c \<Longrightarrow> \<not> isspace c \<and> c \<noteq> CHR ''+'' \<and> c \<noteq> CHR ''-''"
  by (auto simp add: isdigit_def isspace_def)

lemma parse_num_leading_digits:
  assumes "v \<noteq> []" and "isdigit (hd v)" and "digits_value 0 (takeWhile isdigit v) < 2 ^ 64"
  shows "parse_num v opt = Inr (word_of_int (digits_value 0 (takeWhile isdigit v)))"
proof -
  from assms(1) obtain c cs where v: "v = c # cs" by (cases v) auto
  with assms(2) have c: "isdigit c" by simp
  from digit_not_space_or_sign [OF c] c assms(3) show ?thesis
    by (simp add: v parse_num_def stoull_def Let_def)
qed

lemma scan_numeric_error:
  assumes "not_a_number v" and "opt = ''-inum'' \<or> opt = ''-nlinks''"
  shows "scan_options ind (opt # v # rest) config =
           Inl (''Value of '' @ opt @ '' is invalid: '' @ v @ '', stoull'')"
proof -
  from assms(2) show ?thesis
  proof
    assume "opt = ''-inum''"
    then show ?thesis using parse_num_not_a_number [OF assms(1), of "''-inum''"] by simp
  next
    assume "opt = ''-nlinks''"
    then show ?thesis using parse_num_not_a_number [OF assms(1), of "''-nlinks''"] by simp
  qed
qed

lemma scan_size_error:
  "get_size ind sz = Inl msg \<Longrightarrow> scan_options ind (''-size'' # sz # rest) config = Inl msg"
  by simp

lemma main_scan_error:
  "root \<noteq> ''-help'' \<Longrightarrow> scan_options ind opts initial_configuration = Inl msg \<Longrightarrow>
     main os ind (prog # root # opts) envp fs = Some ([Cerr msg], EXIT_FAILURE)"
  by (simp add: main_def new_configuration_def)

lemma scan_unknown_option:
  assumes "opt \<noteq> ''-help''" "opt \<noteq> ''-inum''" "opt \<noteq> ''-name''" "opt \<noteq> ''-size''"
    "opt \<noteq> ''-nlinks''" "opt \<noteq> ''-exec''"
  shows "scan_options ind (opt # v # rest) config = Inl (''Unknown option '' @ opt)"
  using assms by simp

lemma scan_reached:
  "even (length pre) \<Longrightarrow> no_help_option pre \<Longrightarrow> scan_options ind pre config = Inr c \<Longrightarrow>
     scan_options ind (pre @ behind) config = scan_options ind behind c"
proof (induction ind pre config rule: scan_options.induct)
  case (1 ind config)
  then show ?case by simp
next
  case (2 ind option config)
  then show ?case by simp
next
  case (3 ind option "value" rest config)
  then show ?case
    by (auto split: if_splits sum.splits)
qed

lemma scan_error_final:
  "even (length pre) \<Longrightarrow> scan_options ind pre config = Inl msg \<Longrightarrow>
     scan_options ind (pre @ behind) config = Inl msg"
proof (induction ind pre config rule: scan_options.induct)
  case (1 ind config)
  then show ?case by simp
next
  case (2 ind option config)
  then show ?case by simp
next
  case (3 ind option "value" rest config)
  then show ?case
    by (auto split: if_splits sum.splits)
qed

lemma main_reached_error:
  assumes "root \<noteq> ''-help''" and "even (length pre)" and "no_help_option pre"
    and "scan_options ind pre initial_configuration = Inr c"
    and "scan_options ind bad c = Inl msg"
  shows "main os ind (prog # root # pre @ bad) envp fs = Some ([Cerr msg], EXIT_FAILURE)"
proof -
  from scan_reached [OF assms(2,3,4), of bad] assms(5)
  have "scan_options ind (pre @ bad) initial_configuration = Inl msg"
    by simp
  with assms(1) show ?thesis by (rule main_scan_error)
qed

lemma digits_value_nonneg:
  "0 \<le> acc \<Longrightarrow> \<forall>c \<in> set cs. isdigit c \<Longrightarrow> 0 \<le> digits_value acc cs"
proof (induction cs arbitrary: acc)
  case Nil
  then show ?case by simp
next
  case (Cons c cs)
  from Cons.prems(2) have "48 \<le> (of_char c :: nat)"
    by (simp add: isdigit_def)
  then have "int 48 \<le> int (of_char c)"
    by (simp only: of_nat_le_iff)
  then have "48 \<le> (of_char c :: int)"
    by (simp add: of_nat_of_char)
  with Cons show ?case by simp
qed

lemma leading_digits_nonneg: "0 \<le> digits_value 0 (takeWhile isdigit v)"
  by (rule digits_value_nonneg) (auto dest: set_takeWhileD)

lemma uint_of_digits:
  "0 \<le> n \<Longrightarrow> n < 2 ^ 64 \<Longrightarrow> uint (word_of_int n :: 64 word) = n"
  by (simp add: uint_word_of_int)

lemma sint_of_digits:
  "0 \<le> n \<Longrightarrow> n < 2 ^ 63 \<Longrightarrow> sint (word_of_int n :: 64 word) = n"
  by (simp add: sint_sbintrunc' signed_take_bit_int_eq_self)

text \<open>
  C6, as the claim states it, fails: \<open>12abc\<close> is not a well-formed unsigned integer, and
  \<^verbatim>\<open>-inum 12abc\<close> is accepted as the inode number 12; the walk then runs.
\<close>

theorem trailing_characters_are_accepted:
  "parse_num ''12abc'' ''-inum'' = Inr 12 \<and>
   main sample_os 0 [''os-find'', ''.'', ''-inum'', ''12abc''] [] (Dir_stream [] None) =
     Some ([Opendir ''.'', Closedir ''.''], 0)"
  by (simp add: main_def is_help_def parse_defs sample_defs)

text \<open>
  C6, amended. A numeric value (of \<open>-inum\<close>, of \<open>-nlinks\<close>, or the part of a \<open>-size\<close> value
  behind its sign position) in which no digit follows the leading white space and one
  optional sign, or whose digits exceed \<open>2 ^ 64 - 1\<close>, is a configuration error that
  names the option and the value. When the option scan reaches it (the first argument
  is not \<open>-help\<close>, and the options before it are complete pairs, none of them \<open>-help\<close>,
  that the scan accepts), the run prints that message and exits with a non-zero status,
  with no traversal, whatever follows on the command line. A value that begins with
  digits spelling a number below \<open>2 ^ 64\<close> is accepted as that number, read as an
  unsigned 64-bit value: the characters behind the digits are ignored. For \<open>-size\<close> the
  value is kept as a signed 64-bit \<open>off_t\<close>, and it is the number the digits spell when
  that is below \<open>2 ^ 63\<close>.
\<close>

theorem numeric_value_errors:
  "(not_a_number value \<longrightarrow>
      parse_num value option =
        Inl (''Value of '' @ option @ '' is invalid: '' @ value @ '', stoull'')) \<and>
   (not_a_number value \<and> (option = ''-inum'' \<or> option = ''-nlinks'') \<longrightarrow>
      scan_options ind (option # value # rest) config =
        Inl (''Value of '' @ option @ '' is invalid: '' @ value @ '', stoull'')) \<and>
   ((isdigit (first_char sz) \<or> first_char sz = CHR ''+'' \<or> first_char sz = CHR ''-'' \<or>
     first_char sz = CHR ''='') \<and>
    after_sign sz \<noteq> [] \<and> first_char (after_sign sz) \<noteq> CHR ''-'' \<and>
    not_a_number (after_sign sz) \<longrightarrow>
      scan_options ind (''-size'' # sz # rest) config =
        Inl (''Value of -size is invalid: '' @ after_sign sz @ '', stoull'')) \<and>
   (root \<noteq> ''-help'' \<and> scan_options ind opts initial_configuration = Inl msg \<longrightarrow>
      main os ind (prog # root # opts) envp fs = Some ([Cerr msg], EXIT_FAILURE) \<and>
      EXIT_FAILURE \<noteq> 0) \<and>
   (root \<noteq> ''-help'' \<and> even (length pre) \<and> no_help_option pre \<and>
    scan_options ind pre initial_configuration = Inr c \<and>
    not_a_number value \<and> (option = ''-inum'' \<or> option = ''-nlinks'') \<longrightarrow>
      main os ind (prog # root # pre @ option # value # rest) envp fs =
        Some ([Cerr (''Value of '' @ option @ '' is invalid: '' @ value @ '', stoull'')],
              EXIT_FAILURE)) \<and>
   (root \<noteq> ''-help'' \<and> even (length pre) \<and> no_help_option pre \<and>
    scan_options ind pre initial_configuration = Inr c \<and>
    (isdigit (first_char sz) \<or> first_char sz = CHR ''+'' \<or> first_char sz = CHR ''-'' \<or>
     first_char sz = CHR ''='') \<and>
    after_sign sz \<noteq> [] \<and> first_char (after_sign sz) \<noteq> CHR ''-'' \<and>
    not_a_number (after_sign sz) \<longrightarrow>
      main os ind (prog # root # pre @ ''-size'' # sz # rest) envp fs =
        Some ([Cerr (''Value of -size is invalid: '' @ after_sign sz @ '', stoull'')],
              EXIT_FAILURE)) \<and>
   (value \<noteq> [] \<and> isdigit (hd value) \<and> digits_value 0 (takeWhile isdigit value) < 2 ^ 64 \<longrightarrow>
      parse_num value option = Inr (word_of_int (digits_value 0 (takeWhile isdigit value))) \<and>
      uint (word_of_int (digits_value 0 (takeWhile isdigit value)) :: uint64_t) =
        digits_value 0 (takeWhile isdigit value)) \<and>
   ((isdigit (first_char sz) \<or> first_char sz = CHR ''+'' \<or> first_char sz = CHR ''-'' \<or>
     first_char sz = CHR ''='') \<and>
    after_sign sz \<noteq> [] \<and> isdigit (hd (after_sign sz)) \<and>
    digits_value 0 (takeWhile isdigit (after_sign sz)) < 2 ^ 63 \<longrightarrow>
      (\<exists>threshold type. get_size ind sz = Inr (threshold, type) \<and>
         sint threshold = digits_value 0 (takeWhile isdigit (after_sign sz))))"
proof -
  let ?known = "isdigit (first_char sz) \<or> first_char sz = CHR ''+'' \<or> first_char sz = CHR ''-'' \<or>
     first_char sz = CHR ''=''"
  let ?reached = "root \<noteq> ''-help'' \<and> even (length pre) \<and> no_help_option pre \<and>
    scan_options ind pre initial_configuration = Inr c"
  let ?nmsg = "''Value of '' @ option @ '' is invalid: '' @ value @ '', stoull''"
  let ?smsg = "''Value of -size is invalid: '' @ after_sign sz @ '', stoull''"
  let ?digits = "digits_value 0 (takeWhile isdigit value)"
  have size: "scan_options ind (''-size'' # sz # rest) cfg = Inl ?smsg"
    if "?known" and "after_sign sz \<noteq> []" and "first_char (after_sign sz) \<noteq> CHR ''-''"
      and "not_a_number (after_sign sz)" for cfg
  proof -
    from that have "get_size ind sz = Inl ?smsg"
      using parse_num_not_a_number [of "after_sign sz" "''-size''"]
      by (simp add: get_size_known_sign)
    then show ?thesis by (rule scan_size_error)
  qed
  have exit: "EXIT_FAILURE \<noteq> 0"
    by (simp add: EXIT_FAILURE_def)
  have c1: "not_a_number value \<longrightarrow> parse_num value option = Inl ?nmsg"
  proof
    assume "not_a_number value"
    then show "parse_num value option = Inl ?nmsg" by (rule parse_num_not_a_number)
  qed
  have c2: "not_a_number value \<and> (option = ''-inum'' \<or> option = ''-nlinks'') \<longrightarrow>
      scan_options ind (option # value # rest) config = Inl ?nmsg"
  proof (intro impI, elim conjE)
    assume "not_a_number value" and "option = ''-inum'' \<or> option = ''-nlinks''"
    then show "scan_options ind (option # value # rest) config = Inl ?nmsg"
      by (rule scan_numeric_error)
  qed
  have c3: "?known \<and> after_sign sz \<noteq> [] \<and> first_char (after_sign sz) \<noteq> CHR ''-'' \<and>
    not_a_number (after_sign sz) \<longrightarrow>
      scan_options ind (''-size'' # sz # rest) config = Inl ?smsg"
  proof (intro impI, elim conjE)
    assume "?known" and "after_sign sz \<noteq> []" and "first_char (after_sign sz) \<noteq> CHR ''-''"
      and "not_a_number (after_sign sz)"
    then show "scan_options ind (''-size'' # sz # rest) config = Inl ?smsg"
      by (rule size)
  qed
  have c4: "root \<noteq> ''-help'' \<and> scan_options ind opts initial_configuration = Inl msg \<longrightarrow>
      main os ind (prog # root # opts) envp fs = Some ([Cerr msg], EXIT_FAILURE) \<and>
      EXIT_FAILURE \<noteq> 0"
  proof (intro impI conjI exit, elim conjE)
    assume "root \<noteq> ''-help''" and "scan_options ind opts initial_configuration = Inl msg"
    then show "main os ind (prog # root # opts) envp fs = Some ([Cerr msg], EXIT_FAILURE)"
      by (rule main_scan_error)
  qed
  have c5: "root \<noteq> ''-help'' \<and> even (length pre) \<and> no_help_option pre \<and>
    scan_options ind pre initial_configuration = Inr c \<and> not_a_number value \<and> (option = ''-inum'' \<or> option = ''-nlinks'') \<longrightarrow>
      main os ind (prog # root # pre @ option # value # rest) envp fs =
        Some ([Cerr ?nmsg], EXIT_FAILURE)"
  proof (intro impI, elim conjE)
    assume r: "root \<noteq> ''-help''" "even (length pre)" "no_help_option pre"
        "scan_options ind pre initial_configuration = Inr c"
      and n: "not_a_number value" "option = ''-inum'' \<or> option = ''-nlinks''"
    from n have "scan_options ind (option # value # rest) c = Inl ?nmsg"
      by (rule scan_numeric_error)
    with r show "main os ind (prog # root # pre @ option # value # rest) envp fs =
        Some ([Cerr ?nmsg], EXIT_FAILURE)"
      by (rule main_reached_error)
  qed
  have c6: "root \<noteq> ''-help'' \<and> even (length pre) \<and> no_help_option pre \<and>
    scan_options ind pre initial_configuration = Inr c \<and> ?known \<and> after_sign sz \<noteq> [] \<and> first_char (after_sign sz) \<noteq> CHR ''-'' \<and>
    not_a_number (after_sign sz) \<longrightarrow>
      main os ind (prog # root # pre @ ''-size'' # sz # rest) envp fs =
        Some ([Cerr ?smsg], EXIT_FAILURE)"
  proof (intro impI, elim conjE)
    assume r: "root \<noteq> ''-help''" "even (length pre)" "no_help_option pre"
        "scan_options ind pre initial_configuration = Inr c"
      and n: "?known" "after_sign sz \<noteq> []" "first_char (after_sign sz) \<noteq> CHR ''-''"
        "not_a_number (after_sign sz)"
    from n have "scan_options ind (''-size'' # sz # rest) c = Inl ?smsg"
      by (rule size)
    with r show "main os ind (prog # root # pre @ ''-size'' # sz # rest) envp fs =
        Some ([Cerr ?smsg], EXIT_FAILURE)"
      by (rule main_reached_error)
  qed
  have c7: "value \<noteq> [] \<and> isdigit (hd value) \<and> ?digits < 2 ^ 64 \<longrightarrow>
      parse_num value option = Inr (word_of_int ?digits) \<and>
      uint (word_of_int ?digits :: uint64_t) = ?digits"
  proof (intro impI conjI, elim conjE)
    assume "value \<noteq> []" and "isdigit (hd value)" and "?digits < 2 ^ 64"
    then show "parse_num value option = Inr (word_of_int ?digits)"
      by (rule parse_num_leading_digits)
  next
    assume "value \<noteq> [] \<and> isdigit (hd value) \<and> ?digits < 2 ^ 64"
    then have "?digits < 2 ^ 64" by simp
    with leading_digits_nonneg show "uint (word_of_int ?digits :: uint64_t) = ?digits"
      by (rule uint_of_digits)
  qed
  have c8: "?known \<and> after_sign sz \<noteq> [] \<and> isdigit (hd (after_sign sz)) \<and>
    digits_value 0 (takeWhile isdigit (after_sign sz)) < 2 ^ 63 \<longrightarrow>
      (\<exists>threshold type. get_size ind sz = Inr (threshold, type) \<and>
         sint threshold = digits_value 0 (takeWhile isdigit (after_sign sz)))"
  proof (intro impI, elim conjE)
    assume k: "?known" and n: "after_sign sz \<noteq> []" and d: "isdigit (hd (after_sign sz))"
      and b: "digits_value 0 (takeWhile isdigit (after_sign sz)) < 2 ^ 63"
    from n d have f: "first_char (after_sign sz) \<noteq> CHR ''-''"
      using sign_not_digit(2) by (cases "after_sign sz") (auto simp add: first_char_def)
    from b have "digits_value 0 (takeWhile isdigit (after_sign sz)) < 2 ^ 64"
      by simp
    from parse_num_leading_digits [OF n d this, of "''-size''"] n f
    have "get_size ind sz =
        Inr (word_of_int (digits_value 0 (takeWhile isdigit (after_sign sz))),
             if first_char sz = CHR ''+'' then GREATER
             else if first_char sz = CHR ''-'' then LESS else ind)"
      by (simp add: get_size_known_sign [OF k])
    with sint_of_digits [OF leading_digits_nonneg b]
    show "\<exists>threshold type. get_size ind sz = Inr (threshold, type) \<and>
         sint threshold = digits_value 0 (takeWhile isdigit (after_sign sz))"
      by blast
  qed
  show ?thesis
    by (intro conjI c1 c2 c3 c4 c5 c6 c7 c8)
qed

theorem numeric_value_errors_witness:
  "not_a_number ''x7'' \<and>
   parse_num ''x7'' ''-nlinks'' = Inl ''Value of -nlinks is invalid: x7, stoull'' \<and>
   even (length [''-name'', ''a'']) \<and> no_help_option [''-name'', ''a''] \<and>
   main sample_os 0 [''os-find'', ''.'', ''-name'', ''a'', ''-nlinks'', ''x7'', ''-help''] []
     sample_root =
     Some ([Cerr ''Value of -nlinks is invalid: x7, stoull''], EXIT_FAILURE) \<and>
   not_a_number ''99999999999999999999'' \<and>
   main sample_os 0 [''os-find'', ''.'', ''-name'', ''a'', ''-size'', ''+99999999999999999999'']
     [] sample_root =
     Some ([Cerr ''Value of -size is invalid: 99999999999999999999, stoull''], EXIT_FAILURE) \<and>
   parse_num ''12abc'' ''-inum'' = Inr 12 \<and>
   (\<exists>threshold type. get_size 0 ''+12abc'' = Inr (threshold, type) \<and> sint threshold = 12)"
proof -
  let ?pre = "[''-name'', ''a'']"
  let ?big = "''+99999999999999999999''"
  have n1: "not_a_number ''x7''"
    by (simp add: not_a_number_def numeric_part_def isspace_def isdigit_def)
  have n2: "not_a_number ''99999999999999999999''"
    by (simp add: not_a_number_def numeric_part_def isspace_def isdigit_def)
  have a: "after_sign ?big = ''99999999999999999999'' \<and> after_sign ''+12abc'' = ''12abc''"
    by (simp add: after_sign_def first_char_def isdigit_def)
  have f: "first_char ?big = CHR ''+'' \<and> first_char ''+12abc'' = CHR ''+'' \<and>
           first_char ''99999999999999999999'' \<noteq> CHR ''-''"
    by (simp add: first_char_def)
  have d: "isdigit (hd ''12abc'') \<and> takeWhile isdigit ''12abc'' = ''12''"
    by (simp add: isdigit_def)
  have p: "even (length ?pre) \<and> no_help_option ?pre"
    by simp
  obtain c where s: "scan_options 0 ?pre initial_configuration = Inr c"
    by simp
  note t1 = numeric_value_errors
    [of "''x7''" "''-nlinks''" 0 "[''-help'']" initial_configuration ?big "''.''"
       "[]" "[]" sample_os "''os-find''" "[]" sample_root ?pre c]
  note t2 = numeric_value_errors
    [of "''12abc''" "''-inum''" 0 "[]" initial_configuration ?big "''.''"
       "[]" "[]" sample_os "''os-find''" "[]" sample_root ?pre c]
  note t3 = numeric_value_errors
    [of "''12abc''" "''-inum''" 0 "[]" initial_configuration "''+12abc''" "''.''"
       "[]" "[]" sample_os "''os-find''" "[]" sample_root ?pre c]
  from t1 n1 have 1: "parse_num ''x7'' ''-nlinks'' = Inl ''Value of -nlinks is invalid: x7, stoull''"
    by simp
  from t1 n1 p s have 2: "main sample_os 0
      (''os-find'' # ''.'' # ?pre @ ''-nlinks'' # ''x7'' # [''-help'']) [] sample_root =
     Some ([Cerr (''Value of '' @ ''-nlinks'' @ '' is invalid: '' @ ''x7'' @ '', stoull'')],
           EXIT_FAILURE)"
    by blast
  from t2 n2 a f p s have 3: "main sample_os 0
      (''os-find'' # ''.'' # ?pre @ ''-size'' # ?big # []) [] sample_root =
     Some ([Cerr (''Value of -size is invalid: '' @ after_sign ?big @ '', stoull'')],
           EXIT_FAILURE)"
    by simp
  from t2 d have 4: "parse_num ''12abc'' ''-inum'' = Inr 12"
    by (simp add: isdigit_def)
  from t3 a f d have 5: "\<exists>threshold type. get_size 0 ''+12abc'' = Inr (threshold, type) \<and>
      sint threshold = 12"
    by (simp add: isdigit_def)
  from n1 n2 p 1 2 3 4 5 a show ?thesis by simp
qed

subsection \<open>The grammar of \<open>-size\<close> values\<close>

text \<open>
  C7, as the claim states it, fails: \<open>100abc\<close> is not a sign followed by digits only, and
  \<^verbatim>\<open>-size 100abc\<close> is accepted as the threshold 100; the walk then runs.
\<close>

theorem size_with_trailing_characters_is_accepted:
  "get_size 0 ''100abc'' = Inr (100, 0) \<and>
   main sample_os 0 [''os-find'', ''.'', ''-size'', ''100abc''] [] (Dir_stream [] None) =
     Some ([Opendir ''.'', Closedir ''.''], 0)"
  by (simp add: main_def is_help_def parse_defs sample_defs)

text \<open>
  C7, amended. A \<open>-size\<close> value is refused exactly when its first character is neither a
  digit nor one of \<open>=\<close>, \<open>+\<close>, \<open>-\<close>, or nothing or a \<open>-\<close> stands at the position behind
  the optional sign, or no digit follows the white space and one further optional sign
  there, or the digits exceed \<open>2 ^ 64 - 1\<close>; so \<open>abc\<close>, the empty value and \<open>-\<close> are
  refused. When the option scan reaches a refused value (the first argument is not
  \<open>-help\<close>, and the options before it are complete pairs, none of them \<open>-help\<close>, that the
  scan accepts), the constructor raises a configuration error, and the process prints it
  and exits with a non-zero status before any directory is opened, whatever follows on
  the command line. Characters behind the digits are not looked at.
\<close>

theorem size_value_errors:
  "(\<exists>msg. get_size ind value = Inl msg) = size_rejected value \<and>
   (root \<noteq> ''-help'' \<and> even (length pre) \<and> no_help_option pre \<and>
    scan_options ind pre initial_configuration = Inr c \<and> size_rejected value \<longrightarrow>
      (\<exists>msg. get_size ind value = Inl msg \<and>
         main os ind (prog # root # pre @ ''-size'' # value # rest) envp fs =
           Some ([Cerr msg], EXIT_FAILURE))) \<and>
   EXIT_FAILURE \<noteq> 0 \<and>
   size_rejected ''abc'' \<and> size_rejected '''' \<and> size_rejected ''-''"
proof -
  have c1: "(\<exists>msg. get_size ind value = Inl msg) = size_rejected value"
    by (rule get_size_Inl_iff)
  have c2: "root \<noteq> ''-help'' \<and> even (length pre) \<and> no_help_option pre \<and>
    scan_options ind pre initial_configuration = Inr c \<and> size_rejected value \<longrightarrow>
      (\<exists>msg. get_size ind value = Inl msg \<and>
         main os ind (prog # root # pre @ ''-size'' # value # rest) envp fs =
           Some ([Cerr msg], EXIT_FAILURE))"
  proof (intro impI, elim conjE)
    assume r: "root \<noteq> ''-help''" "even (length pre)" "no_help_option pre"
        "scan_options ind pre initial_configuration = Inr c"
      and s: "size_rejected value"
    from s obtain msg where g: "get_size ind value = Inl msg"
      using get_size_Inl_iff by blast
    then have "scan_options ind (''-size'' # value # rest) c = Inl msg"
      by (rule scan_size_error)
    with r have "main os ind (prog # root # pre @ ''-size'' # value # rest) envp fs =
        Some ([Cerr msg], EXIT_FAILURE)"
      by (rule main_reached_error)
    with g show "\<exists>msg. get_size ind value = Inl msg \<and>
         main os ind (prog # root # pre @ ''-size'' # value # rest) envp fs =
           Some ([Cerr msg], EXIT_FAILURE)"
      by blast
  qed
  have c3: "EXIT_FAILURE \<noteq> 0"
    by (simp add: EXIT_FAILURE_def)
  have c4: "size_rejected ''abc''" and c5: "size_rejected ''''" and c6: "size_rejected ''-''"
    by (simp_all add: size_rejected_def after_sign_def first_char_def isdigit_def)
  show ?thesis
    by (intro conjI c1 c2 c3 c4 c5 c6)
qed

theorem size_value_errors_witness:
  "size_rejected ''abc'' \<and>
   get_size 0 ''abc'' = Inl ''Value of size is invalid: Unknown symbol a'' \<and>
   get_size 0 '''' = Inl ''Value of size is invalid: Unknown symbol '' \<and>
   even (length [''-name'', ''a'']) \<and> no_help_option [''-name'', ''a''] \<and>
   main sample_os 0 [''os-find'', ''.'', ''-name'', ''a'', ''-size'', ''-'', ''-help''] []
     sample_root =
     Some ([Cerr ''Value of size is invalid:-''], EXIT_FAILURE)"
proof -
  let ?pre = "[''-name'', ''a'']"
  have p: "even (length ?pre) \<and> no_help_option ?pre"
    by simp
  obtain c where s: "scan_options 0 ?pre initial_configuration = Inr c"
    by simp
  note t = size_value_errors
    [of 0 "''-''" "''.''" ?pre c sample_os "''os-find''" "[''-help'']" "[]" sample_root]
  from t have r: "size_rejected ''abc'' \<and> size_rejected ''-''"
    by blast
  with t p s obtain msg where g: "get_size 0 ''-'' = Inl msg"
    and m: "main sample_os 0 (''os-find'' # ''.'' # ?pre @ ''-size'' # ''-'' # [''-help'']) []
      sample_root = Some ([Cerr msg], EXIT_FAILURE)"
    by blast
  have "get_size 0 ''-'' = Inl ''Value of size is invalid:-''"
    by (simp add: parse_defs)
  with g have "msg = ''Value of size is invalid:-''"
    by simp
  with m have 1: "main sample_os 0
      [''os-find'', ''.'', ''-name'', ''a'', ''-size'', ''-'', ''-help''] [] sample_root =
      Some ([Cerr ''Value of size is invalid:-''], EXIT_FAILURE)"
    by simp
  have 2: "get_size 0 ''abc'' = Inl ''Value of size is invalid: Unknown symbol a''"
    by (simp add: parse_defs)
  have 3: "get_size 0 '''' = Inl ''Value of size is invalid: Unknown symbol ''"
    by (simp add: parse_defs)
  from r p 1 2 3 show ?thesis by simp
qed

subsection \<open>\<open>-help\<close> and the empty command line\<close>

lemma scan_help_after_valid:
  "even (length pre) \<Longrightarrow> scan_options ind pre config = Inr c \<Longrightarrow>
     \<exists>c'. scan_options ind (pre @ ''-help'' # rest) config = Inr c' \<and> help_flag c'"
proof (induction ind pre config rule: scan_options.induct)
  case (1 ind config)
  show ?case by (cases rest) simp_all
next
  case (2 ind option config)
  then show ?case by simp
next
  case (3 ind option "value" rest' config)
  then show ?case
    by (auto split: if_splits sum.splits)
qed

text \<open>
  C8, as the claim states it, fails: a \<open>-help\<close> at an option position behind an unknown
  option is not reached; the run reports the unknown option and exits with a failure status.
\<close>

theorem help_behind_unknown_option_fails:
  "main sample_os 0 [''os-find'', ''.'', ''-bogus'', ''x'', ''-help''] [] sample_root =
     Some ([Cerr ''Unknown option -bogus''], EXIT_FAILURE) \<and> EXIT_FAILURE \<noteq> 0"
  by (simp add: main_def new_configuration_def EXIT_FAILURE_def)

text \<open>
  C8, amended. If \<open>-help\<close> is the first argument, or stands at an option position that
  the scan reaches (the options before it are complete pairs that the scan accepts), the
  program prints the usage text and exits with status 0, whatever the arguments behind it
  are. A \<open>-help\<close> behind an unknown option or behind an invalid value is not reached:
  whatever stands behind the first option pair that the scan refuses, the run prints
  that configuration error and exits with a non-zero status; an option that is none of
  \<open>-help\<close>, \<open>-inum\<close>, \<open>-name\<close>, \<open>-size\<close>, \<open>-nlinks\<close>, \<open>-exec\<close> is refused as unknown, a
  value of \<open>-inum\<close> or \<open>-nlinks\<close> that is no number is refused, and so is a refused
  \<open>-size\<close> value. Invoked with no argument the program prints the usage text and exits
  with a non-zero status. In all these cases nothing is traversed: the usage text, or the
  error message, is the only event.
\<close>

theorem help_and_empty_command_line:
  "main os ind (prog # ''-help'' # rest) envp fs = Some (print_help, EXIT_SUCCESS) \<and>
   (even (length pre) \<and> scan_options ind pre initial_configuration = Inr c \<longrightarrow>
      main os ind (prog # root # pre @ ''-help'' # rest) envp fs =
        Some (print_help, EXIT_SUCCESS)) \<and>
   (length argv < 2 \<longrightarrow> main os ind argv envp fs = Some (print_help, EXIT_FAILURE)) \<and>
   print_help = [Cout (usage_text @ endl)] \<and> EXIT_SUCCESS = 0 \<and> EXIT_FAILURE \<noteq> 0 \<and>
   (root \<noteq> ''-help'' \<and> even (length pre) \<and>
    scan_options ind pre initial_configuration = Inl msg \<longrightarrow>
      main os ind (prog # root # pre @ behind) envp fs = Some ([Cerr msg], EXIT_FAILURE)) \<and>
   (root \<noteq> ''-help'' \<and> even (length pre) \<and> no_help_option pre \<and>
    scan_options ind pre initial_configuration = Inr c \<and>
    option \<noteq> ''-help'' \<and> option \<noteq> ''-inum'' \<and> option \<noteq> ''-name'' \<and> option \<noteq> ''-size'' \<and>
    option \<noteq> ''-nlinks'' \<and> option \<noteq> ''-exec'' \<longrightarrow>
      main os ind (prog # root # pre @ option # value # behind) envp fs =
        Some ([Cerr (''Unknown option '' @ option)], EXIT_FAILURE)) \<and>
   (root \<noteq> ''-help'' \<and> even (length pre) \<and> no_help_option pre \<and>
    scan_options ind pre initial_configuration = Inr c \<and>
    (option = ''-inum'' \<or> option = ''-nlinks'') \<and> not_a_number value \<longrightarrow>
      main os ind (prog # root # pre @ option # value # behind) envp fs =
        Some ([Cerr (''Value of '' @ option @ '' is invalid: '' @ value @ '', stoull'')],
              EXIT_FAILURE)) \<and>
   (root \<noteq> ''-help'' \<and> even (length pre) \<and> no_help_option pre \<and>
    scan_options ind pre initial_configuration = Inr c \<and> size_rejected value \<longrightarrow>
      (\<exists>msg. main os ind (prog # root # pre @ ''-size'' # value # behind) envp fs =
                Some ([Cerr msg], EXIT_FAILURE)))"
proof -
  have c1: "main os ind (prog # ''-help'' # rest) envp fs = Some (print_help, EXIT_SUCCESS)"
    by (simp add: main_def new_configuration_def is_help_def)
  have c2: "even (length pre) \<and> scan_options ind pre initial_configuration = Inr c \<longrightarrow>
      main os ind (prog # root # pre @ ''-help'' # rest) envp fs =
        Some (print_help, EXIT_SUCCESS)"
  proof (intro impI, elim conjE)
    assume e: "even (length pre)" and s: "scan_options ind pre initial_configuration = Inr c"
    from scan_help_after_valid [OF e s] obtain c' where
      "scan_options ind (pre @ ''-help'' # rest) initial_configuration = Inr c'" and "help_flag c'"
      by blast
    then show "main os ind (prog # root # pre @ ''-help'' # rest) envp fs =
        Some (print_help, EXIT_SUCCESS)"
      by (simp add: main_def new_configuration_def is_help_def)
  qed
  have c3: "length argv < 2 \<longrightarrow> main os ind argv envp fs = Some (print_help, EXIT_FAILURE)"
    by (simp add: main_def)
  have c4: "print_help = [Cout (usage_text @ endl)]"
    by (simp add: print_help_def)
  have c5: "EXIT_SUCCESS = 0" and c6: "EXIT_FAILURE \<noteq> 0"
    by (simp_all add: EXIT_SUCCESS_def EXIT_FAILURE_def)
  have c7: "root \<noteq> ''-help'' \<and> even (length pre) \<and>
    scan_options ind pre initial_configuration = Inl msg \<longrightarrow>
      main os ind (prog # root # pre @ behind) envp fs = Some ([Cerr msg], EXIT_FAILURE)"
  proof (intro impI, elim conjE)
    assume r: "root \<noteq> ''-help''" and e: "even (length pre)"
      and s: "scan_options ind pre initial_configuration = Inl msg"
    from e s have "scan_options ind (pre @ behind) initial_configuration = Inl msg"
      by (rule scan_error_final)
    with r show "main os ind (prog # root # pre @ behind) envp fs =
        Some ([Cerr msg], EXIT_FAILURE)"
      by (rule main_scan_error)
  qed
  have c8: "root \<noteq> ''-help'' \<and> even (length pre) \<and> no_help_option pre \<and>
    scan_options ind pre initial_configuration = Inr c \<and>
    option \<noteq> ''-help'' \<and> option \<noteq> ''-inum'' \<and> option \<noteq> ''-name'' \<and> option \<noteq> ''-size'' \<and>
    option \<noteq> ''-nlinks'' \<and> option \<noteq> ''-exec'' \<longrightarrow>
      main os ind (prog # root # pre @ option # value # behind) envp fs =
        Some ([Cerr (''Unknown option '' @ option)], EXIT_FAILURE)"
  proof (intro impI, elim conjE)
    assume r: "root \<noteq> ''-help''" "even (length pre)" "no_help_option pre"
        "scan_options ind pre initial_configuration = Inr c"
      and u: "option \<noteq> ''-help''" "option \<noteq> ''-inum''" "option \<noteq> ''-name''"
        "option \<noteq> ''-size''" "option \<noteq> ''-nlinks''" "option \<noteq> ''-exec''"
    from u have "scan_options ind (option # value # behind) c = Inl (''Unknown option '' @ option)"
      by (rule scan_unknown_option)
    with r show "main os ind (prog # root # pre @ option # value # behind) envp fs =
        Some ([Cerr (''Unknown option '' @ option)], EXIT_FAILURE)"
      by (rule main_reached_error)
  qed
  have c9: "root \<noteq> ''-help'' \<and> even (length pre) \<and> no_help_option pre \<and>
    scan_options ind pre initial_configuration = Inr c \<and>
    (option = ''-inum'' \<or> option = ''-nlinks'') \<and> not_a_number value \<longrightarrow>
      main os ind (prog # root # pre @ option # value # behind) envp fs =
        Some ([Cerr (''Value of '' @ option @ '' is invalid: '' @ value @ '', stoull'')],
              EXIT_FAILURE)"
  proof (intro impI, elim conjE)
    assume r: "root \<noteq> ''-help''" "even (length pre)" "no_help_option pre"
        "scan_options ind pre initial_configuration = Inr c"
      and o: "option = ''-inum'' \<or> option = ''-nlinks''" and n: "not_a_number value"
    from n o have "scan_options ind (option # value # behind) c =
        Inl (''Value of '' @ option @ '' is invalid: '' @ value @ '', stoull'')"
      by (rule scan_numeric_error)
    with r show "main os ind (prog # root # pre @ option # value # behind) envp fs =
        Some ([Cerr (''Value of '' @ option @ '' is invalid: '' @ value @ '', stoull'')],
              EXIT_FAILURE)"
      by (rule main_reached_error)
  qed
  have c10: "root \<noteq> ''-help'' \<and> even (length pre) \<and> no_help_option pre \<and>
    scan_options ind pre initial_configuration = Inr c \<and> size_rejected value \<longrightarrow>
      (\<exists>msg. main os ind (prog # root # pre @ ''-size'' # value # behind) envp fs =
                Some ([Cerr msg], EXIT_FAILURE))"
  proof (intro impI, elim conjE)
    assume r: "root \<noteq> ''-help''" "even (length pre)" "no_help_option pre"
        "scan_options ind pre initial_configuration = Inr c"
      and s: "size_rejected value"
    from s obtain msg where "get_size ind value = Inl msg"
      using get_size_Inl_iff by blast
    then have "scan_options ind (''-size'' # value # behind) c = Inl msg"
      by (rule scan_size_error)
    with r have "main os ind (prog # root # pre @ ''-size'' # value # behind) envp fs =
        Some ([Cerr msg], EXIT_FAILURE)"
      by (rule main_reached_error)
    then show "\<exists>msg. main os ind (prog # root # pre @ ''-size'' # value # behind) envp fs =
                Some ([Cerr msg], EXIT_FAILURE)"
      by blast
  qed
  show ?thesis
    by (intro conjI c1 c2 c3 c4 c5 c6 c7 c8 c9 c10)
qed

theorem help_and_empty_command_line_witness:
  "even (length [''-name'', ''a'', ''-size'', ''+1'']) \<and>
   no_help_option [''-name'', ''a'', ''-size'', ''+1''] \<and>
   (\<exists>c. scan_options 0 [''-name'', ''a'', ''-size'', ''+1''] initial_configuration = Inr c) \<and>
   main sample_os 0 [''os-find'', ''.'', ''-name'', ''a'', ''-size'', ''+1'', ''-help'', ''-bogus'']
     [] sample_root = Some (print_help, EXIT_SUCCESS) \<and>
   length [''os-find''] < 2 \<and>
   main sample_os 0 [''os-find''] [] sample_root = Some (print_help, EXIT_FAILURE) \<and>
   main sample_os 0 [''os-find'', ''.'', ''-name'', ''a'', ''-size'', ''+1'', ''-bogus'', ''x'', ''-help'']
     [] sample_root = Some ([Cerr ''Unknown option -bogus''], EXIT_FAILURE) \<and>
   not_a_number ''x7'' \<and>
   main sample_os 0 [''os-find'', ''.'', ''-name'', ''a'', ''-size'', ''+1'', ''-inum'', ''x7'', ''-help'']
     [] sample_root = Some ([Cerr ''Value of -inum is invalid: x7, stoull''], EXIT_FAILURE) \<and>
   size_rejected ''abc'' \<and>
   (\<exists>msg. main sample_os 0
       [''os-find'', ''.'', ''-name'', ''a'', ''-size'', ''+1'', ''-size'', ''abc'', ''-help'']
       [] sample_root = Some ([Cerr msg], EXIT_FAILURE)) \<and>
   even (length [''-inum'', ''x7'']) \<and>
   scan_options 0 [''-inum'', ''x7''] initial_configuration =
     Inl ''Value of -inum is invalid: x7, stoull'' \<and>
   main sample_os 0 [''os-find'', ''.'', ''-inum'', ''x7'', ''-help''] [] sample_root =
     Some ([Cerr ''Value of -inum is invalid: x7, stoull''], EXIT_FAILURE)"
proof -
  let ?pre = "[''-name'', ''a'', ''-size'', ''+1'']"
  let ?bad = "[''-inum'', ''x7'']"
  let ?msg = "''Value of -inum is invalid: x7, stoull''"
  have p: "even (length ?pre) \<and> no_help_option ?pre \<and> even (length ?bad)"
    by simp
  obtain c where s: "scan_options 0 ?pre initial_configuration = Inr c"
    by (simp add: parse_defs)
  have b: "scan_options 0 ?bad initial_configuration = Inl ?msg"
    by (simp add: parse_defs)
  have n: "not_a_number ''x7''"
    by (simp add: not_a_number_def numeric_part_def isspace_def isdigit_def)
  have r: "size_rejected ''abc''"
    by (simp add: size_rejected_def after_sign_def first_char_def isdigit_def)
  have d: "''.'' \<noteq> ''-help''" by simp
  have u: "''-bogus'' \<noteq> ''-help'' \<and> ''-bogus'' \<noteq> ''-inum'' \<and> ''-bogus'' \<noteq> ''-name'' \<and>
           ''-bogus'' \<noteq> ''-size'' \<and> ''-bogus'' \<noteq> ''-nlinks'' \<and> ''-bogus'' \<noteq> ''-exec''"
    by simp
  note t1 = help_and_empty_command_line
    [of sample_os 0 "''os-find''" "[''-bogus'']" "[]" sample_root ?pre c "''.''" "[''os-find'']"
       ?msg "[''-help'']" "''-bogus''" "''x''"]
  note t2 = help_and_empty_command_line
    [of sample_os 0 "''os-find''" "[''-bogus'']" "[]" sample_root ?pre c "''.''" "[''os-find'']"
       ?msg "[''-help'']" "''-inum''" "''x7''"]
  note t3 = help_and_empty_command_line
    [of sample_os 0 "''os-find''" "[''-bogus'']" "[]" sample_root ?pre c "''.''" "[''os-find'']"
       ?msg "[''-help'']" "''-inum''" "''abc''"]
  note t4 = help_and_empty_command_line
    [of sample_os 0 "''os-find''" "[''-bogus'']" "[]" sample_root ?bad c "''.''" "[''os-find'']"
       ?msg "[''-help'']" "''-inum''" "''abc''"]
  from t1 p s have 1: "main sample_os 0 (''os-find'' # ''.'' # ?pre @ ''-help'' # [''-bogus'']) []
      sample_root = Some (print_help, EXIT_SUCCESS)"
    by blast
  from t1 have 2: "main sample_os 0 [''os-find''] [] sample_root = Some (print_help, EXIT_FAILURE)"
    by simp
  from t1 d p s u have 3: "main sample_os 0
      (''os-find'' # ''.'' # ?pre @ ''-bogus'' # ''x'' # [''-help'']) [] sample_root =
      Some ([Cerr (''Unknown option '' @ ''-bogus'')], EXIT_FAILURE)"
    by blast
  from t2 d p s n have 4: "main sample_os 0
      (''os-find'' # ''.'' # ?pre @ ''-inum'' # ''x7'' # [''-help'']) [] sample_root =
      Some ([Cerr (''Value of '' @ ''-inum'' @ '' is invalid: '' @ ''x7'' @ '', stoull'')],
            EXIT_FAILURE)"
    by blast
  from t3 d p s r have 5: "\<exists>msg. main sample_os 0
      (''os-find'' # ''.'' # ?pre @ ''-size'' # ''abc'' # [''-help'']) [] sample_root =
      Some ([Cerr msg], EXIT_FAILURE)"
    by blast
  from t4 d p b have 6: "main sample_os 0 (''os-find'' # ''.'' # ?bad @ [''-help'']) [] sample_root =
      Some ([Cerr ?msg], EXIT_FAILURE)"
    by blast
  from p s n r b 1 2 3 4 5 6 show ?thesis by simp
qed


end
